theory Spec2Isabelle
  imports Complex_Main
begin

section \<open>The shelter service of Safr: data model\<close>

text \<open>
  The shelter service (\<^verbatim>\<open>shelterService.ts\<close>) fetches emergency facilities from the
  Overpass API, keeps the last good list in AsyncStorage and falls back to a bundled list.

  What an endpoint answers is outside the service's control: the TypeScript interfaces
  \<^verbatim>\<open>OverpassResponse\<close> and \<^verbatim>\<open>OverpassElement\<close> are not checked at run time. The answer is
  therefore a JavaScript value as JSON parsing leaves it: \<^verbatim>\<open>null\<close>, a boolean, a number,
  a string, an array, or an object (the list of its properties, each key once);
  \<^verbatim>\<open>undefined\<close> is what reading a missing property gives. Strings are \<^typ>\<open>string\<close>
  holding UTF-8 bytes. Numbers are modelled by their value as a \<^typ>\<open>real\<close>; the rounding
  and the overflow of double precision are not.
\<close>

datatype js =
    JUndefined
  | JNull
  | JBool bool
  | JNum real
  | JStr string
  | JArr "js list"
  | JObj "(string \<times> js) list"

datatype shelter_type = Hospital | Pharmacy | Fire | Police | Bunker | Unknown

text \<open>The string literal behind each member of the union \<^verbatim>\<open>Shelter['type']\<close>.\<close>

fun type_string :: "shelter_type \<Rightarrow> string" where
  "type_string Hospital = ''hospital''"
| "type_string Pharmacy = ''pharmacy''"
| "type_string Fire = ''fire''"
| "type_string Police = ''police''"
| "type_string Bunker = ''bunker''"
| "type_string Unknown = ''unknown''"

text \<open>
  A \<^verbatim>\<open>Shelter\<close> as the service builds it. The id and the type are computed; the other
  fields are copied from the answer and hold whatever value was there.
\<close>

record Shelter =
  s_id :: string
  s_type :: shelter_type
  s_lat :: js
  s_lng :: js
  s_name :: js
  s_capacity :: js

datatype result_source = Cache | Api | Fallback

record ShelterServiceResult =
  r_shelters :: "Shelter list"
  r_source :: result_source
  r_error :: "string option"

record Coordinates =
  lat :: js
  lng :: js

subsection \<open>Constants\<close>

definition STORAGE_KEY :: string where
  "STORAGE_KEY = ''@safr_shelters_cache''"

definition STORAGE_TIMESTAMP_KEY :: string where
  "STORAGE_TIMESTAMP_KEY = ''@safr_shelters_timestamp''"

definition CACHE_MAX_AGE :: int where
  "CACHE_MAX_AGE = 24 * 60 * 60 * 1000"

definition OVERPASS_ENDPOINTS :: "string list" where
  "OVERPASS_ENDPOINTS =
     [''https://overpass-api.de/api/interpreter'',
      ''https://lz4.overpass-api.de/api/interpreter'',
      ''https://overpass.kumi.systems/api/interpreter'']"

text \<open>
  The bundled list. The Romanian letters of the names are written as their UTF-8 bytes
  (t-comma is C8 9B, s-comma is C8 99, a-breve is C4 83).
\<close>

definition FALLBACK_SHELTERS :: "Shelter list" where
  "FALLBACK_SHELTERS =
     [\<lparr>s_id = ''fallback_1'', s_type = Hospital, s_lat = JNum 45.738205, s_lng = JNum 21.242398,
       s_name = JStr (''Spitalul Jude'' @ [CHR 0xC8, CHR 0x9B] @ ''ean Timi''
                      @ [CHR 0xC8, CHR 0x99] @ ''oara''),
       s_capacity = JUndefined\<rparr>,
      \<lparr>s_id = ''fallback_2'', s_type = Hospital, s_lat = JNum 45.747479, s_lng = JNum 21.226180,
       s_name = JStr ''Spitalul Municipal'', s_capacity = JUndefined\<rparr>,
      \<lparr>s_id = ''fallback_3'', s_type = Fire, s_lat = JNum 45.755800, s_lng = JNum 21.228900,
       s_name = JStr (''Sta'' @ [CHR 0xC8, CHR 0x9B] @ ''ie Pompieri Centru''),
       s_capacity = JUndefined\<rparr>,
      \<lparr>s_id = ''fallback_4'', s_type = Pharmacy, s_lat = JNum 45.753200, s_lng = JNum 21.225600,
       s_name = JStr (''Farmacie Central'' @ [CHR 0xC4, CHR 0x83]), s_capacity = JUndefined\<rparr>,
      \<lparr>s_id = ''fallback_5'', s_type = Police, s_lat = JNum 45.754100, s_lng = JNum 21.226800,
       s_name = JStr (''Poli'' @ [CHR 0xC8, CHR 0x9B] @ ''ia Municipiului Timi''
                      @ [CHR 0xC8, CHR 0x99] @ ''oara''),
       s_capacity = JUndefined\<rparr>]"

section \<open>The environment: time, storage, network, platform\<close>

text \<open>
  A thrown JavaScript value is an \<^verbatim>\<open>Error\<close> with its message (a \<^verbatim>\<open>TypeError\<close> is one), or
  some other value (\<^verbatim>\<open>error instanceof Error\<close> is false for it).
\<close>

datatype js_exn = Error string | NonError

text \<open>
  The two ways the service's own code can raise a \<^verbatim>\<open>TypeError\<close>: reading a property of
  \<^verbatim>\<open>null\<close> or \<^verbatim>\<open>undefined\<close>, and converting to a string an object that has no
  primitive value. The message is the engine's.
\<close>

datatype type_error = Cannot_read string | Cannot_convert

text \<open>
  One \<^verbatim>\<open>axios.post\<close> to an endpoint either raises (time-out, transport error, a status
  outside 2xx) or answers with \<^verbatim>\<open>response.data\<close>, any value.
\<close>

datatype http_outcome = Throws js_exn | Response js

text \<open>
  What one operation of the service finds around it: the clock (\<^verbatim>\<open>Date.now()\<close>, in
  milliseconds), the answer of each endpoint, whether \<^verbatim>\<open>AsyncStorage.getItem\<close> and
  \<^verbatim>\<open>AsyncStorage.setItem\<close> reject for a key (and with what), the platform's
  \<^verbatim>\<open>JSON.stringify\<close> and \<^verbatim>\<open>JSON.parse\<close> at the type \<^verbatim>\<open>Shelter[]\<close> (parsing raises a
  \<^verbatim>\<open>SyntaxError\<close> on text that is not JSON), the messages of the engine's type errors,
  and the engine's printing of a number that is not an integer. These library functions
  are not part of the repository and are parameters of the model.
\<close>

record env =
  now :: int
  post :: "string \<Rightarrow> http_outcome"
  getItem_rejects :: "string \<Rightarrow> js_exn option"
  setItem_rejects :: "string \<Rightarrow> js_exn option"
  JSON_stringify :: "Shelter list \<Rightarrow> string"
  JSON_parse :: "string \<Rightarrow> js_exn + Shelter list"
  TypeError_message :: "type_error \<Rightarrow> string"
  Number_toString :: "real \<Rightarrow> string"

definition TypeError :: "env \<Rightarrow> type_error \<Rightarrow> js_exn" where
  "TypeError ev t = Error (TypeError_message ev t)"

section \<open>JavaScript primitives the service relies on\<close>

text \<open>
  \<^verbatim>\<open>String(n)\<close> for an integer \<open>n\<close> (below \<open>10^21\<close> in absolute value, where JavaScript
  switches to exponent notation): the decimal digits, with a minus sign when negative.
\<close>

definition digit_char :: "nat \<Rightarrow> char" where
  "digit_char d = char_of (48 + d)"

fun show_nat :: "nat \<Rightarrow> string" where
  "show_nat n = (if n < 10 then [digit_char n] else show_nat (n div 10) @ [digit_char (n mod 10)])"

declare show_nat.simps [simp del]

definition show_int :: "int \<Rightarrow> string" where
  "show_int i = (if i < 0 then CHR ''-'' # show_nat (nat (- i)) else show_nat (nat i))"

text \<open>
  \<^verbatim>\<open>parseInt(s, 10)\<close>: skip leading white space (the ASCII white space is modelled), read
  an optional sign and the longest run of decimal digits; \<open>None\<close> stands for \<^verbatim>\<open>NaN\<close>.
\<close>

definition is_digit :: "char \<Rightarrow> bool" where
  "is_digit c = (48 \<le> (of_char c :: nat) \<and> (of_char c :: nat) \<le> 57)"

definition is_space :: "char \<Rightarrow> bool" where
  "is_space c = ((of_char c :: nat) \<in> {9, 10, 11, 12, 13, 32})"

definition digit_val :: "char \<Rightarrow> nat" where
  "digit_val c = of_char c - 48"

definition digits_value :: "string \<Rightarrow> nat" where
  "digits_value ds = foldl (\<lambda>a c. 10 * a + digit_val c) 0 ds"

definition parseInt :: "string \<Rightarrow> int option" where
  "parseInt s =
     (let s1 = dropWhile is_space s;
          neg = (take 1 s1 = ''-'');
          s2 = (if take 1 s1 = ''-'' \<or> take 1 s1 = ''+'' then drop 1 s1 else s1);
          ds = takeWhile is_digit s2
      in if ds = [] then None
         else Some (if neg then - int (digits_value ds) else int (digits_value ds)))"

text \<open>\<^verbatim>\<open>String.prototype.toUpperCase\<close> on ASCII text (the type names are ASCII).\<close>

definition toUpperCase :: "string \<Rightarrow> string" where
  "toUpperCase s =
     map (\<lambda>c. if 97 \<le> (of_char c :: nat) \<and> (of_char c :: nat) \<le> 122
               then char_of ((of_char c :: nat) - 32) else c) s"

text \<open>
  The truthiness of what \<^verbatim>\<open>AsyncStorage.getItem\<close> gives, a string or \<^verbatim>\<open>null\<close>: \<^verbatim>\<open>null\<close>
  and the empty string are falsy.
\<close>

fun truthy :: "string option \<Rightarrow> bool" where
  "truthy None = False"
| "truthy (Some s) = (s \<noteq> [])"

text \<open>The truthiness of a value (JSON has no \<^verbatim>\<open>NaN\<close>).\<close>

fun js_truthy :: "js \<Rightarrow> bool" where
  "js_truthy JUndefined = False"
| "js_truthy JNull = False"
| "js_truthy (JBool b) = b"
| "js_truthy (JNum x) = (x \<noteq> 0)"
| "js_truthy (JStr s) = (s \<noteq> [])"
| "js_truthy (JArr xs) = True"
| "js_truthy (JObj properties) = True"

definition nullish :: "js \<Rightarrow> bool" where
  "nullish x = (x = JUndefined \<or> x = JNull)"

text \<open>
  Reading the property \<open>key\<close> of a value that is neither \<^verbatim>\<open>null\<close> nor \<^verbatim>\<open>undefined\<close>
  (reading from those raises, which each caller writes out). An object gives the property
  or \<^verbatim>\<open>undefined\<close>. A boolean, a number, a string and an array give \<^verbatim>\<open>undefined\<close> for each
  of the names the service reads (\<^verbatim>\<open>elements\<close>, \<^verbatim>\<open>type\<close>, \<^verbatim>\<open>id\<close>, \<^verbatim>\<open>lat\<close>, \<^verbatim>\<open>lon\<close>,
  \<^verbatim>\<open>center\<close>, \<^verbatim>\<open>tags\<close>, \<^verbatim>\<open>name\<close>, \<^verbatim>\<open>amenity\<close>, \<^verbatim>\<open>capacity\<close>): none is a property of
  their prototypes.
\<close>

fun js_get :: "js \<Rightarrow> string \<Rightarrow> js" where
  "js_get (JObj properties) key = (case map_of properties key of None \<Rightarrow> JUndefined | Some v \<Rightarrow> v)"
| "js_get x key = JUndefined"

text \<open>The optional chaining \<^verbatim>\<open>x?.key\<close>.\<close>

definition optional :: "js \<Rightarrow> string \<Rightarrow> js" where
  "optional x key = (if nullish x then JUndefined else js_get x key)"

fun isArray :: "js \<Rightarrow> bool" where
  "isArray (JArr xs) = True"
| "isArray x = False"

text \<open>The entries of an array.\<close>

fun entries :: "js \<Rightarrow> js list" where
  "entries (JArr xs) = xs"
| "entries x = []"

text \<open>
  \<^verbatim>\<open>Number.prototype.toString\<close>: an integer prints as its decimal digits, any other number
  as the engine prints it.
\<close>

definition number_toString :: "env \<Rightarrow> real \<Rightarrow> string" where
  "number_toString ev x =
     (if x = of_int \<lfloor>x\<rfloor> then show_int \<lfloor>x\<rfloor> else Number_toString ev x)"

text \<open>
  The conversion to a string inside a template literal. An array joins the strings of
  its entries with commas, \<^verbatim>\<open>null\<close> and \<^verbatim>\<open>undefined\<close> entries giving the empty string.
  An object without a property \<^verbatim>\<open>toString\<close> of its own prints through
  \<^verbatim>\<open>Object.prototype.toString\<close>; with one (a value from JSON, never callable) neither
  \<^verbatim>\<open>toString\<close> nor \<^verbatim>\<open>valueOf\<close> yields a primitive and the conversion raises.
\<close>

fun ToString :: "env \<Rightarrow> js \<Rightarrow> js_exn + string"
  and join :: "env \<Rightarrow> js list \<Rightarrow> js_exn + string" where
  "ToString ev JUndefined = Inr ''undefined''"
| "ToString ev JNull = Inr ''null''"
| "ToString ev (JBool b) = Inr (if b then ''true'' else ''false'')"
| "ToString ev (JNum x) = Inr (number_toString ev x)"
| "ToString ev (JStr s) = Inr s"
| "ToString ev (JArr xs) = join ev xs"
| "ToString ev (JObj properties) =
     (if map_of properties ''toString'' = None then Inr ''[object Object]''
      else Inl (TypeError ev Cannot_convert))"
| "join ev [] = Inr []"
| "join ev (x # xs) =
     (case (if x = JUndefined \<or> x = JNull then Inr [] else ToString ev x) of
        Inl e \<Rightarrow> Inl e
      | Inr s \<Rightarrow>
          if xs = [] then Inr s
          else (case join ev xs of Inl e \<Rightarrow> Inl e | Inr r \<Rightarrow> Inr (s @ '','' @ r)))"

section \<open>Normalising Overpass elements\<close>

definition mapAmenityToType :: "js \<Rightarrow> shelter_type" where
  "mapAmenityToType amenity =
     (if amenity = JStr ''hospital'' then Hospital
      else if amenity = JStr ''pharmacy'' then Pharmacy
      else if amenity = JStr ''fire_station'' then Fire
      else if amenity = JStr ''police'' then Police
      else if amenity = JStr ''shelter'' then Bunker
      else Unknown)"

text \<open>
  The first thing \<^verbatim>\<open>extractCoordinates\<close> does is to read \<^verbatim>\<open>element.type\<close>, which raises
  when the element is \<^verbatim>\<open>null\<close>; no later read can raise (\<^verbatim>\<open>element.center\<close> is read
  from only when it is truthy). \<^verbatim>\<open>!== undefined\<close> lets \<^verbatim>\<open>null\<close> through.
\<close>

definition extractCoordinates :: "env \<Rightarrow> js \<Rightarrow> js_exn + Coordinates option" where
  "extractCoordinates ev element =
     (if nullish element then Inl (TypeError ev (Cannot_read ''type''))
      else if js_get element ''type'' = JStr ''node'' \<and> js_get element ''lat'' \<noteq> JUndefined
              \<and> js_get element ''lon'' \<noteq> JUndefined
      then Inr (Some \<lparr>lat = js_get element ''lat'', lng = js_get element ''lon''\<rparr>)
      else if (js_get element ''type'' = JStr ''way'' \<or> js_get element ''type'' = JStr ''relation'')
              \<and> js_truthy (js_get element ''center'')
      then Inr (Some \<lparr>lat = js_get (js_get element ''center'') ''lat'',
                       lng = js_get (js_get element ''center'') ''lon''\<rparr>)
      else Inr None)"

text \<open>
  \<^verbatim>\<open>transformToShelter\<close>: the name is evaluated before the id; each template literal
  converts \<^verbatim>\<open>element.id\<close> to a string, which can raise.
\<close>

definition transformToShelter :: "env \<Rightarrow> js \<Rightarrow> js_exn + Shelter option" where
  "transformToShelter ev element =
     (case extractCoordinates ev element of
        Inl e \<Rightarrow> Inl e
      | Inr None \<Rightarrow> Inr None
      | Inr (Some coords) \<Rightarrow>
          (let type = mapAmenityToType (optional (js_get element ''tags'') ''amenity'')
           in case (if js_truthy (optional (js_get element ''tags'') ''name'')
                    then Inr (optional (js_get element ''tags'') ''name'')
                    else (case ToString ev (js_get element ''id'') of
                            Inl e \<Rightarrow> Inl e
                          | Inr n \<Rightarrow>
                              Inr (JStr (toUpperCase (take 1 (type_string type))
                                         @ drop 1 (type_string type) @ '' #'' @ n)))) of
                Inl e \<Rightarrow> Inl e
              | Inr name \<Rightarrow>
                  (case ToString ev (js_get element ''type'') of
                     Inl e \<Rightarrow> Inl e
                   | Inr t \<Rightarrow>
                       (case ToString ev (js_get element ''id'') of
                          Inl e \<Rightarrow> Inl e
                        | Inr n \<Rightarrow>
                            Inr (Some \<lparr>s_id = ''osm_'' @ t @ ''_'' @ n,
                                       s_type = type,
                                       s_lat = lat coords,
                                       s_lng = lng coords,
                                       s_name = name,
                                       s_capacity = optional (js_get element ''tags'') ''capacity''\<rparr>)))))"

section \<open>The state: storage, console, requests\<close>

text \<open>The calls of \<^verbatim>\<open>console.log\<close>, \<^verbatim>\<open>console.warn\<close> and \<^verbatim>\<open>console.error\<close>, by call site.\<close>

datatype console_event =
    Log_NoCacheFound
  | Log_CacheExpired int
  | Log_Loaded nat
  | Error_LoadingCache js_exn
  | Log_Saved nat
  | Error_SavingToCache js_exn
  | Log_TryingEndpoint string
  | Warn_InvalidResponse string
  | Log_Success nat string
  | Log_Transformed nat
  | Warn_EndpointFailed string string
  | Error_CacheLoad js_exn
  | Error_ApiFetch string
  | Warn_UsingFallback

text \<open>
  The state the service changes: the key-value store of AsyncStorage, the console, and
  the endpoints a request was sent to, in the order of sending.
\<close>

record world =
  storage :: "string \<rightharpoonup> string"
  console :: "console_event list"
  requests :: "string list"

definition console_log :: "console_event \<Rightarrow> world \<Rightarrow> world" where
  "console_log ev w = w\<lparr>console := console w @ [ev]\<rparr>"

definition AsyncStorage_getItem :: "env \<Rightarrow> world \<Rightarrow> string \<Rightarrow> js_exn + string option" where
  "AsyncStorage_getItem ev w key =
     (case getItem_rejects ev key of Some e \<Rightarrow> Inl e | None \<Rightarrow> Inr (storage w key))"

definition AsyncStorage_setItem :: "env \<Rightarrow> string \<Rightarrow> string \<Rightarrow> world \<Rightarrow> (js_exn + unit) \<times> world" where
  "AsyncStorage_setItem ev key v w =
     (case setItem_rejects ev key of
        Some e \<Rightarrow> (Inl e, w)
      | None \<Rightarrow> (Inr (), w\<lparr>storage := (storage w)(key \<mapsto> v)\<rparr>))"

text \<open>
  \<^verbatim>\<open>Promise.all\<close> of two promises that have both been started: it rejects when one of
  them rejects (the first in array order is taken as the reason; the reason only reaches
  the console).
\<close>

definition Promise_all :: "js_exn + 'a \<Rightarrow> js_exn + 'b \<Rightarrow> js_exn + ('a \<times> 'b)" where
  "Promise_all p q =
     (case p of Inl e \<Rightarrow> Inl e
      | Inr a \<Rightarrow> (case q of Inl e \<Rightarrow> Inl e | Inr b \<Rightarrow> Inr (a, b)))"

section \<open>Cache functions\<close>

text \<open>The body of the \<^verbatim>\<open>try\<close> block of \<^verbatim>\<open>loadFromCache\<close>.\<close>

definition loadFromCache_try :: "env \<Rightarrow> world \<Rightarrow> (js_exn + Shelter list option) \<times> world" where
  "loadFromCache_try ev w =
     (case Promise_all (AsyncStorage_getItem ev w STORAGE_KEY)
                       (AsyncStorage_getItem ev w STORAGE_TIMESTAMP_KEY) of
        Inl e \<Rightarrow> (Inl e, w)
      | Inr (cachedData, timestampStr) \<Rightarrow>
          if \<not> truthy cachedData then (Inr None, console_log Log_NoCacheFound w)
          else
            (let w1 = (if truthy timestampStr then
                         (case parseInt (the timestampStr) of
                            None \<Rightarrow> w
                          | Some t \<Rightarrow>
                              (let cacheAge = now ev - t
                               in if cacheAge > CACHE_MAX_AGE
                                  then console_log (Log_CacheExpired ((cacheAge + 1800000) div 3600000)) w
                                  else w))
                       else w)
             in case JSON_parse ev (the cachedData) of
                  Inl e \<Rightarrow> (Inl e, w1)
                | Inr shelters \<Rightarrow> (Inr (Some shelters), console_log (Log_Loaded (length shelters)) w1)))"

definition loadFromCache :: "env \<Rightarrow> world \<Rightarrow> (js_exn + Shelter list option) \<times> world" where
  "loadFromCache ev w =
     (case loadFromCache_try ev w of
        (Inl e, w1) \<Rightarrow> (Inr None, console_log (Error_LoadingCache e) w1)
      | (Inr r, w1) \<Rightarrow> (Inr r, w1))"

definition saveToCache :: "env \<Rightarrow> Shelter list \<Rightarrow> world \<Rightarrow> (js_exn + unit) \<times> world" where
  "saveToCache ev shelters w =
     (let (p, w1) = AsyncStorage_setItem ev STORAGE_KEY (JSON_stringify ev shelters) w;
          (q, w2) = AsyncStorage_setItem ev STORAGE_TIMESTAMP_KEY (show_int (now ev)) w1
      in case Promise_all p q of
           Inl e \<Rightarrow> (Inr (), console_log (Error_SavingToCache e) w2)
         | Inr _ \<Rightarrow> (Inr (), console_log (Log_Saved (length shelters)) w2))"

section \<open>The remote client\<close>

text \<open>
  \<^verbatim>\<open>elements.map(transformToShelter)\<close>: the entries in order; the first one on which the
  normaliser raises ends the map with that exception.
\<close>

fun map_transformToShelter :: "env \<Rightarrow> js list \<Rightarrow> js_exn + Shelter option list" where
  "map_transformToShelter ev [] = Inr []"
| "map_transformToShelter ev (element # rest) =
     (case transformToShelter ev element of
        Inl e \<Rightarrow> Inl e
      | Inr r \<Rightarrow>
          (case map_transformToShelter ev rest of
             Inl e \<Rightarrow> Inl e
           | Inr rs \<Rightarrow> Inr (r # rs)))"

text \<open>
  The body of the \<^verbatim>\<open>try\<close> block of one round of the loop of \<^verbatim>\<open>fetchFromAPI\<close>. It raises
  (\<open>Inl\<close>: the request, the read of \<^verbatim>\<open>data.elements\<close> from a \<^verbatim>\<open>null\<close> body, or the
  normaliser on an entry), or reaches \<^verbatim>\<open>continue\<close> (\<open>Inr None\<close>), or returns the records.
\<close>

definition fetch_try :: "env \<Rightarrow> string \<Rightarrow> world \<Rightarrow> (js_exn + Shelter list option) \<times> world" where
  "fetch_try ev endpoint w =
     (let w1 = console_log (Log_TryingEndpoint endpoint) w;
          w2 = w1\<lparr>requests := requests w1 @ [endpoint]\<rparr>
      in case post ev endpoint of
           Throws err \<Rightarrow> (Inl err, w2)
         | Response data \<Rightarrow>
             if nullish data then (Inl (TypeError ev (Cannot_read ''elements'')), w2)
             else if \<not> js_truthy (js_get data ''elements'') \<or> \<not> isArray (js_get data ''elements'')
             then (Inr None, console_log (Warn_InvalidResponse endpoint) w2)
             else
               (let elements = entries (js_get data ''elements'');
                    w3 = console_log (Log_Success (length elements) endpoint) w2
                in case map_transformToShelter ev elements of
                     Inl e \<Rightarrow> (Inl e, w3)
                   | Inr results \<Rightarrow>
                       (let shelters = map the (filter (\<lambda>shelter. shelter \<noteq> None) results)
                        in (Inr (Some shelters),
                            console_log (Log_Transformed (length shelters)) w3))))"

text \<open>
  The \<^verbatim>\<open>for\<close> loop of \<^verbatim>\<open>fetchFromAPI\<close> over the endpoints still to try, with the
  variable \<^verbatim>\<open>lastError\<close> and the \<^verbatim>\<open>catch\<close> block; after the loop the function throws.
\<close>

fun fetch_loop :: "env \<Rightarrow> string list \<Rightarrow> js_exn option \<Rightarrow> world \<Rightarrow> (js_exn + Shelter list) \<times> world" where
  "fetch_loop ev [] lastError w =
     (Inl (case lastError of Some e \<Rightarrow> e | None \<Rightarrow> Error ''All Overpass API endpoints failed''), w)"
| "fetch_loop ev (endpoint # rest) lastError w =
     (case fetch_try ev endpoint w of
        (Inr (Some shelters), w1) \<Rightarrow> (Inr shelters, w1)
      | (Inr None, w1) \<Rightarrow> fetch_loop ev rest lastError w1
      | (Inl err, w1) \<Rightarrow>
          (let errorMsg = (case err of Error m \<Rightarrow> m | NonError \<Rightarrow> ''Unknown error'')
           in fetch_loop ev rest
                (Some (case err of Error m \<Rightarrow> err | NonError \<Rightarrow> Error errorMsg))
                (console_log (Warn_EndpointFailed endpoint errorMsg) w1)))"

definition fetchFromAPI :: "env \<Rightarrow> world \<Rightarrow> (js_exn + Shelter list) \<times> world" where
  "fetchFromAPI ev w = fetch_loop ev OVERPASS_ENDPOINTS None w"

section \<open>The main service functions\<close>

text \<open>The last statement of \<^verbatim>\<open>getShelters\<close>, reached when no branch has returned.\<close>

definition getShelters_fallback :: "world \<Rightarrow> (js_exn + ShelterServiceResult) \<times> world" where
  "getShelters_fallback w =
     (Inr \<lparr>r_shelters = FALLBACK_SHELTERS, r_source = Fallback,
           r_error = Some ''No network connection and no cached data available''\<rparr>,
      console_log Warn_UsingFallback w)"

text \<open>The \<^verbatim>\<open>catch (apiError)\<close> block of \<^verbatim>\<open>getShelters\<close>.\<close>

definition getShelters_catch :: "Shelter list option \<Rightarrow> js_exn \<Rightarrow> world \<Rightarrow> (js_exn + ShelterServiceResult) \<times> world" where
  "getShelters_catch cachedShelters apiError w =
     (let errorMessage = (case apiError of Error m \<Rightarrow> m | NonError \<Rightarrow> ''Unknown API error'');
          w1 = console_log (Error_ApiFetch errorMessage) w
      in if cachedShelters \<noteq> None \<and> length (the cachedShelters) > 0
         then (Inr \<lparr>r_shelters = the cachedShelters, r_source = Cache,
                    r_error = Some (''API unavailable: '' @ errorMessage)\<rparr>, w1)
         else getShelters_fallback w1)"

definition getShelters :: "env \<Rightarrow> world \<Rightarrow> (js_exn + ShelterServiceResult) \<times> world" where
  "getShelters ev w =
     (let (cachedShelters, w1) =
            (case loadFromCache ev w of
               (Inl e, w') \<Rightarrow> (None, console_log (Error_CacheLoad e) w')
             | (Inr c, w') \<Rightarrow> (c, w'))
      in case fetchFromAPI ev w1 of
           (Inl apiError, w2) \<Rightarrow> getShelters_catch cachedShelters apiError w2
         | (Inr apiShelters, w2) \<Rightarrow>
             if length apiShelters > 0 then
               (case saveToCache ev apiShelters w2 of
                  (Inl e, w3) \<Rightarrow> getShelters_catch cachedShelters e w3
                | (Inr _, w3) \<Rightarrow>
                    (Inr \<lparr>r_shelters = apiShelters, r_source = Api, r_error = None\<rparr>, w3))
             else if cachedShelters \<noteq> None \<and> length (the cachedShelters) > 0
             then (Inr \<lparr>r_shelters = the cachedShelters, r_source = Cache,
                        r_error = Some ''API returned empty results, using cached data''\<rparr>, w2)
             else getShelters_fallback w2)"

text \<open>
  The \<^verbatim>\<open>catch (error)\<close> block of \<^verbatim>\<open>refreshShelters\<close>. It calls \<^verbatim>\<open>loadFromCache\<close>
  outside any \<^verbatim>\<open>try\<close>: an exception of that call would leave \<^verbatim>\<open>refreshShelters\<close>.
\<close>

definition refreshShelters_catch :: "env \<Rightarrow> js_exn \<Rightarrow> world \<Rightarrow> (js_exn + ShelterServiceResult) \<times> world" where
  "refreshShelters_catch ev err w =
     (let errorMessage = (case err of Error m \<Rightarrow> m | NonError \<Rightarrow> ''Unknown error'')
      in case loadFromCache ev w of
           (Inl e, w1) \<Rightarrow> (Inl e, w1)
         | (Inr cachedShelters, w1) \<Rightarrow>
             if cachedShelters \<noteq> None \<and> length (the cachedShelters) > 0
             then (Inr \<lparr>r_shelters = the cachedShelters, r_source = Cache,
                        r_error = Some (''Refresh failed: '' @ errorMessage)\<rparr>, w1)
             else (Inr \<lparr>r_shelters = FALLBACK_SHELTERS, r_source = Fallback,
                        r_error = Some (''Refresh failed: '' @ errorMessage)\<rparr>, w1))"

definition refreshShelters :: "env \<Rightarrow> world \<Rightarrow> (js_exn + ShelterServiceResult) \<times> world" where
  "refreshShelters ev w =
     (case fetchFromAPI ev w of
        (Inl err, w1) \<Rightarrow> refreshShelters_catch ev err w1
      | (Inr apiShelters, w1) \<Rightarrow>
          if length apiShelters > 0 then
            (case saveToCache ev apiShelters w1 of
               (Inl e, w2) \<Rightarrow> refreshShelters_catch ev e w2
             | (Inr _, w2) \<Rightarrow>
                 (Inr \<lparr>r_shelters = apiShelters, r_source = Api, r_error = None\<rparr>, w2))
          else
            (case loadFromCache ev w1 of
               (Inl e, w2) \<Rightarrow> refreshShelters_catch ev e w2
             | (Inr cachedShelters, w2) \<Rightarrow>
                 if cachedShelters \<noteq> None \<and> length (the cachedShelters) > 0
                 then (Inr \<lparr>r_shelters = the cachedShelters, r_source = Cache,
                            r_error = Some ''Refresh returned empty results''\<rparr>, w2)
                 else (Inr \<lparr>r_shelters = FALLBACK_SHELTERS, r_source = Fallback,
                            r_error = Some ''Refresh failed''\<rparr>, w2)))"

section \<open>Notions used to state the properties\<close>

text \<open>An endpoint's answer is structurally valid when it carries an \<^verbatim>\<open>elements\<close> array.\<close>

fun structurally_valid :: "http_outcome \<Rightarrow> bool" where
  "structurally_valid (Response data) = isArray (js_get data ''elements'')"
| "structurally_valid (Throws err) = False"

fun elements_of :: "http_outcome \<Rightarrow> js list" where
  "elements_of (Response data) = entries (js_get data ''elements'')"
| "elements_of (Throws err) = []"

text \<open>The first exception the normaliser raises on a list of entries, if any.\<close>

fun first_error :: "env \<Rightarrow> js list \<Rightarrow> js_exn option" where
  "first_error ev [] = None"
| "first_error ev (element # rest) =
     (case transformToShelter ev element of
        Inl e \<Rightarrow> Some e
      | Inr r \<Rightarrow> first_error ev rest)"

text \<open>
  An attempt succeeds when the answer carries an \<^verbatim>\<open>elements\<close> array and the normaliser
  raises on none of its entries.
\<close>

definition succeeds :: "env \<Rightarrow> http_outcome \<Rightarrow> bool" where
  "succeeds ev outcome =
     (structurally_valid outcome \<and> first_error ev (elements_of outcome) = None)"

text \<open>The records of a list of entries: those the normaliser makes, in order.\<close>

definition normalized :: "env \<Rightarrow> js list \<Rightarrow> Shelter list" where
  "normalized ev elements =
     List.map_filter
       (\<lambda>element. case transformToShelter ev element of
                     Inl e \<Rightarrow> None
                   | Inr r \<Rightarrow> r)
       elements"

text \<open>
  The error an attempt leaves in \<^verbatim>\<open>lastError\<close>. A request that raised leaves its error
  (an \<^verbatim>\<open>Error\<close> as it is, any other thrown value wrapped); a \<^verbatim>\<open>null\<close> body leaves the
  type error of reading \<^verbatim>\<open>elements\<close> from it; an \<^verbatim>\<open>elements\<close> array leaves the first
  exception of the normaliser, if any; any other body leaves none.
\<close>

fun raised :: "env \<Rightarrow> http_outcome \<Rightarrow> js_exn option" where
  "raised ev (Throws (Error m)) = Some (Error m)"
| "raised ev (Throws NonError) = Some (Error ''Unknown error'')"
| "raised ev (Response data) =
     (if nullish data then Some (TypeError ev (Cannot_read ''elements''))
      else if isArray (js_get data ''elements'') then first_error ev (entries (js_get data ''elements''))
      else None)"

text \<open>
  The reason \<^verbatim>\<open>fetchFromAPI\<close> fails with, given the attempts' outcomes in order: the
  error of the last attempt that raised, the generic error when none did.
\<close>

definition failure_reason :: "env \<Rightarrow> js_exn option \<Rightarrow> http_outcome list \<Rightarrow> js_exn" where
  "failure_reason ev lastError outcomes =
     (case List.map_filter (raised ev) outcomes of
        [] \<Rightarrow> (case lastError of Some e \<Rightarrow> e | None \<Rightarrow> Error ''All Overpass API endpoints failed'')
      | e # es \<Rightarrow> last (e # es))"

text \<open>
  Coordinates that are numbers in the real-world range, as the specification's data model
  asks.
\<close>

fun in_range :: "real \<Rightarrow> js \<Rightarrow> bool" where
  "in_range bound (JNum x) = (- bound \<le> x \<and> x \<le> bound)"
| "in_range bound v = False"

definition valid_coordinates :: "Shelter \<Rightarrow> bool" where
  "valid_coordinates s = (in_range 90 (s_lat s) \<and> in_range 180 (s_lng s))"

text \<open>What \<^verbatim>\<open>saveToCache\<close> leaves in the store: each key is written unless its write is rejected.\<close>

definition store_after_save :: "env \<Rightarrow> Shelter list \<Rightarrow> (string \<rightharpoonup> string) \<Rightarrow> (string \<rightharpoonup> string)" where
  "store_after_save ev records m =
     (let m1 = (if setItem_rejects ev STORAGE_KEY = None
                then m(STORAGE_KEY \<mapsto> JSON_stringify ev records) else m)
      in if setItem_rejects ev STORAGE_TIMESTAMP_KEY = None
         then m1(STORAGE_TIMESTAMP_KEY \<mapsto> show_int (now ev)) else m1)"

text \<open>
  What every result of the two service functions satisfies: a non-empty list, an error
  text exactly when the source is not the API, the bundled list when the source is the
  fallback.
\<close>

definition well_tagged :: "ShelterServiceResult \<Rightarrow> bool" where
  "well_tagged r =
     (r_shelters r \<noteq> [] \<and>
      (if r_source r = Api then r_error r = None
       else r_error r \<noteq> None \<and> the (r_error r) \<noteq> []) \<and>
      (r_source r = Fallback \<longrightarrow> r_shelters r = FALLBACK_SHELTERS))"

section \<open>Example elements, environments and worlds\<close>

text \<open>The way of the specification's scenario D and the record it normalises to.\<close>

definition city_hospital_way :: js where
  "city_hospital_way =
     JObj [(''type'', JStr ''way''), (''id'', JNum 42),
           (''center'', JObj [(''lat'', JNum 45.1), (''lon'', JNum 21.2)]),
           (''tags'', JObj [(''amenity'', JStr ''hospital''), (''name'', JStr ''City Hospital'')])]"

definition city_hospital :: Shelter where
  "city_hospital =
     \<lparr>s_id = ''osm_way_42'', s_type = Hospital, s_lat = JNum 45.1, s_lng = JNum 21.2,
      s_name = JStr ''City Hospital'', s_capacity = JUndefined\<rparr>"

text \<open>A node with the same numeric id, without tags.\<close>

definition node_42 :: js where
  "node_42 = JObj [(''type'', JStr ''node''), (''id'', JNum 42),
                   (''lat'', JNum 45.7), (''lon'', JNum 21.3)]"

text \<open>
  A node without coordinates, a node whose coordinates are not on the globe, and a node
  whose coordinates are \<^verbatim>\<open>null\<close>.
\<close>

definition bare_node :: js where
  "bare_node = JObj [(''type'', JStr ''node''), (''id'', JNum 7)]"

definition far_node :: js where
  "far_node = JObj [(''type'', JStr ''node''), (''id'', JNum 1),
                    (''lat'', JNum 999), (''lon'', JNum 999)]"

definition far_shelter :: Shelter where
  "far_shelter = \<lparr>s_id = ''osm_node_1'', s_type = Unknown, s_lat = JNum 999, s_lng = JNum 999,
                  s_name = JStr ''Unknown #1'', s_capacity = JUndefined\<rparr>"

definition null_node :: js where
  "null_node = JObj [(''type'', JStr ''node''), (''id'', JNum 2),
                     (''lat'', JNull), (''lon'', JNull)]"

definition null_shelter :: Shelter where
  "null_shelter = \<lparr>s_id = ''osm_node_2'', s_type = Unknown, s_lat = JNull, s_lng = JNull,
                   s_name = JStr ''Unknown #2'', s_capacity = JUndefined\<rparr>"

text \<open>A body with the given \<^verbatim>\<open>elements\<close> array.\<close>

definition body :: "js list \<Rightarrow> js" where
  "body elements = JObj [(''version'', JNum 0.6), (''elements'', JArr elements)]"

text \<open>
  A stand-in for the platform's JSON on the example lists: the text lists the ids, and
  reading gives back the lists the examples store (anything else is a syntax error).
\<close>

definition test_stringify :: "Shelter list \<Rightarrow> string" where
  "test_stringify records = ''['' @ concat (map (\<lambda>s. s_id s @ '';'') records) @ '']''"

definition test_parse :: "string \<Rightarrow> js_exn + Shelter list" where
  "test_parse text =
     (if text = test_stringify [city_hospital] then Inr [city_hospital]
      else if text = test_stringify FALLBACK_SHELTERS then Inr FALLBACK_SHELTERS
      else if text = test_stringify [] then Inr []
      else Inl (Error ''SyntaxError''))"

text \<open>Stand-ins for the engine's messages and for its printing of fractions.\<close>

fun test_message :: "type_error \<Rightarrow> string" where
  "test_message (Cannot_read key) = ''Cannot read property '' @ key @ '' of null''"
| "test_message Cannot_convert = ''Cannot convert object to primitive value''"

definition test_fraction :: "real \<Rightarrow> string" where
  "test_fraction x = show_int \<lfloor>x\<rfloor> @ ''.5''"

text \<open>No endpoint answers; the store works.\<close>

definition offline_env :: env where
  "offline_env =
     \<lparr>now = 1700000000000,
      post = (\<lambda>endpoint. Throws (Error ''timeout of 30000ms exceeded'')),
      getItem_rejects = (\<lambda>key. None),
      setItem_rejects = (\<lambda>key. None),
      JSON_stringify = test_stringify,
      JSON_parse = test_parse,
      TypeError_message = test_message,
      Number_toString = test_fraction\<rparr>"

text \<open>The first endpoint answers with the way of scenario D.\<close>

definition online_env :: env where
  "online_env = offline_env\<lparr>post := (\<lambda>endpoint. Response (body [city_hospital_way]))\<rparr>"

text \<open>The same, with a store that rejects every write.\<close>

definition readonly_env :: env where
  "readonly_env = online_env\<lparr>setItem_rejects := (\<lambda>key. Some (Error ''disk full''))\<rparr>"

text \<open>Every endpoint answers with an empty \<^verbatim>\<open>elements\<close> array.\<close>

definition empty_env :: env where
  "empty_env = offline_env\<lparr>post := (\<lambda>endpoint. Response (body []))\<rparr>"

text \<open>The first endpoint times out, the second answers with no elements.\<close>

definition second_env :: env where
  "second_env =
     offline_env\<lparr>post := (\<lambda>endpoint.
        if endpoint = ''https://overpass-api.de/api/interpreter''
        then Throws (Error ''timeout of 30000ms exceeded'')
        else if endpoint = ''https://lz4.overpass-api.de/api/interpreter''
        then Response (body [])
        else Response (body [city_hospital_way]))\<rparr>"

text \<open>
  The first endpoint answers with an \<^verbatim>\<open>elements\<close> array whose only entry is \<^verbatim>\<open>null\<close>, the
  others with the way of scenario D.
\<close>

definition null_entry_env :: env where
  "null_entry_env =
     offline_env\<lparr>post := (\<lambda>endpoint.
        if endpoint = ''https://overpass-api.de/api/interpreter''
        then Response (body [JNull])
        else Response (body [city_hospital_way]))\<rparr>"

text \<open>The first endpoint times out, the others answer with an object without \<^verbatim>\<open>elements\<close>.\<close>

definition malformed_after_timeout_env :: env where
  "malformed_after_timeout_env =
     offline_env\<lparr>post := (\<lambda>endpoint.
        if endpoint = ''https://overpass-api.de/api/interpreter''
        then Throws (Error ''timeout of 30000ms exceeded'')
        else Response (JObj [(''remark'', JStr ''runtime error'')]))\<rparr>"

text \<open>Every endpoint answers with an object without \<^verbatim>\<open>elements\<close>.\<close>

definition malformed_env :: env where
  "malformed_env =
     offline_env\<lparr>post := (\<lambda>endpoint. Response (JObj [(''remark'', JStr ''runtime error'')]))\<rparr>"

text \<open>The first endpoint times out, the others answer with the body \<^verbatim>\<open>null\<close>.\<close>

definition null_body_env :: env where
  "null_body_env =
     offline_env\<lparr>post := (\<lambda>endpoint.
        if endpoint = ''https://overpass-api.de/api/interpreter''
        then Throws (Error ''timeout of 30000ms exceeded'')
        else Response JNull)\<rparr>"

text \<open>
  The first endpoint answers with the node that is not on the globe and the node whose
  coordinates are \<^verbatim>\<open>null\<close>.
\<close>

definition far_env :: env where
  "far_env = offline_env\<lparr>post := (\<lambda>endpoint. Response (body [far_node, null_node]))\<rparr>"

text \<open>Offline, with a store that rejects every read and every write.\<close>

definition broken_env :: env where
  "broken_env =
     offline_env\<lparr>getItem_rejects := (\<lambda>key. Some (Error ''storage unavailable'')),
                 setItem_rejects := (\<lambda>key. Some (Error ''storage unavailable''))\<rparr>"

text \<open>Twenty-five hours after \<open>offline_env\<close>, still offline.\<close>

definition next_day_env :: env where
  "next_day_env = offline_env\<lparr>now := 1700090000000\<rparr>"

text \<open>A world with an empty store, and one whose store holds the bundled list.\<close>

definition fresh_world :: world where
  "fresh_world = \<lparr>storage = Map.empty, console = [], requests = []\<rparr>"

definition cached_world :: world where
  "cached_world =
     \<lparr>storage = [STORAGE_KEY \<mapsto> test_stringify FALLBACK_SHELTERS,
                 STORAGE_TIMESTAMP_KEY \<mapsto> ''1600000000000''],
      console = [], requests = []\<rparr>"

section \<open>Decimal numerals: printing and reading back\<close>

lemma of_char_digit_char: "d < 10 \<Longrightarrow> (of_char (digit_char d) :: nat) = 48 + d"
  by (simp add: digit_char_def)

lemma is_digit_digit_char: "d < 10 \<Longrightarrow> is_digit (digit_char d)"
  by (simp add: is_digit_def of_char_digit_char)

lemma digit_val_digit_char: "d < 10 \<Longrightarrow> digit_val (digit_char d) = d"
  by (simp add: digit_val_def of_char_digit_char)

lemma not_space_digit: "is_digit c \<Longrightarrow> \<not> is_space c"
  by (auto simp add: is_digit_def is_space_def)

lemma show_nat_digits: "\<forall>c \<in> set (show_nat n). is_digit c"
proof (induction n rule: show_nat.induct)
  case (1 n)
  show ?case
  proof (cases "n < 10")
    case True
    then show ?thesis by (subst show_nat.simps) (simp add: is_digit_digit_char)
  next
    case False
    then have "\<forall>c \<in> set (show_nat (n div 10)). is_digit c" using "1.IH" by simp
    moreover have "is_digit (digit_char (n mod 10))" by (simp add: is_digit_digit_char)
    ultimately show ?thesis using False by (subst show_nat.simps) simp
  qed
qed

lemma show_nat_nonempty: "show_nat n \<noteq> []"
  by (subst show_nat.simps) simp

lemma digits_value_snoc: "digits_value (ds @ [c]) = 10 * digits_value ds + digit_val c"
  by (simp add: digits_value_def)

lemma digits_value_show_nat: "digits_value (show_nat n) = n"
proof (induction n rule: show_nat.induct)
  case (1 n)
  show ?case
  proof (cases "n < 10")
    case True
    then show ?thesis by (subst show_nat.simps) (simp add: digits_value_def digit_val_digit_char)
  next
    case False
    then have "digits_value (show_nat (n div 10)) = n div 10" using "1.IH" by simp
    then have "digits_value (show_nat (n div 10) @ [digit_char (n mod 10)]) = n"
      by (simp add: digits_value_snoc digit_val_digit_char)
    then show ?thesis using False by (subst show_nat.simps) simp
  qed
qed

lemma show_nat_shape: "\<exists>c cs. show_nat n = c # cs \<and> is_digit c"
  using show_nat_nonempty [of n] show_nat_digits [of n] by (cases "show_nat n") auto

lemma takeWhile_show_nat: "takeWhile is_digit (show_nat n) = show_nat n"
  using show_nat_digits by (simp add: takeWhile_eq_all_conv)

lemma parseInt_show_nat: "parseInt (show_nat n) = Some (int n)"
proof -
  obtain c cs where s: "show_nat n = c # cs" and d: "is_digit c"
    using show_nat_shape by blast
  have ns: "\<not> is_space c" using d by (rule not_space_digit)
  have nm: "c \<noteq> CHR ''-''" "c \<noteq> CHR ''+''" using d by (auto simp add: is_digit_def)
  have dw: "dropWhile is_space (show_nat n) = show_nat n" using s ns by simp
  have t1: "take (Suc 0) (show_nat n) \<noteq> ''-''" "take (Suc 0) (show_nat n) \<noteq> ''+''"
    using s nm by simp_all
  show ?thesis
    by (simp add: parseInt_def Let_def dw t1 takeWhile_show_nat digits_value_show_nat show_nat_nonempty)
qed

lemma parseInt_show_int: "parseInt (show_int i) = Some i"
proof (cases "i < 0")
  case False
  then show ?thesis using parseInt_show_nat [of "nat i"] by (simp add: show_int_def)
next
  case True
  have sp: "\<not> is_space CHR ''-''" by (simp add: is_space_def)
  have "show_nat (nat (- i)) \<noteq> []" by (rule show_nat_nonempty)
  then show ?thesis using True sp
    by (simp add: parseInt_def show_int_def Let_def takeWhile_show_nat digits_value_show_nat)
qed

lemma show_int_inj: "show_int i = show_int j \<Longrightarrow> i = j"
proof -
  assume "show_int i = show_int j"
  then have "parseInt (show_int i) = parseInt (show_int j)" by simp
  then show "i = j" by (simp add: parseInt_show_int)
qed

lemma show_int_nonempty: "show_int i \<noteq> []"
  by (simp add: show_int_def show_nat_nonempty)

section \<open>The normaliser\<close>

text \<open>
  The synthesised ids determine the element type and the numeric id: the three type
  names differ in their first letter.
\<close>

lemma osm_id_inj:
  assumes "t1 \<in> {''node'', ''way'', ''relation''}" and "t2 \<in> {''node'', ''way'', ''relation''}"
    and "''osm_'' @ t1 @ ''_'' @ show_int i = ''osm_'' @ t2 @ ''_'' @ show_int j"
  shows "t1 = t2 \<and> i = j"
  using assms by (auto dest: show_int_inj)

lemma osm_id_types_differ:
  assumes "t1 \<in> {''node'', ''way'', ''relation''}" and "t2 \<in> {''node'', ''way'', ''relation''}"
    and "t1 \<noteq> t2"
  shows "''osm_'' @ t1 @ ''_'' @ n \<noteq> ''osm_'' @ t2 @ ''_'' @ m"
  using assms by auto

lemma number_toString_of_int: "number_toString ev (of_int i) = show_int i"
  by (simp add: number_toString_def)

lemma ToString_integer: "ToString ev (JNum (of_int i)) = Inr (show_int i)"
  by (simp add: number_toString_of_int)

lemma ToString_raises_Error:
  "ToString ev x = Inl e \<Longrightarrow> \<exists>m. e = Error m"
  "join ev xs = Inl e \<Longrightarrow> \<exists>m. e = Error m"
  by (induction ev x and ev xs arbitrary: e and e rule: ToString_join.induct)
     (auto simp add: TypeError_def split: if_splits sum.splits)

lemma extractCoordinates_raises:
  "(\<exists>e. extractCoordinates ev element = Inl e) = nullish element"
  by (simp add: extractCoordinates_def)

lemma extractCoordinates_Some:
  assumes "extractCoordinates ev element = Inr (Some c)"
  shows "(js_get element ''type'' = JStr ''node''
            \<and> js_get element ''lat'' \<noteq> JUndefined \<and> js_get element ''lon'' \<noteq> JUndefined
            \<and> lat c = js_get element ''lat'' \<and> lng c = js_get element ''lon'')
       \<or> ((js_get element ''type'' = JStr ''way'' \<or> js_get element ''type'' = JStr ''relation'')
            \<and> js_truthy (js_get element ''center'')
            \<and> lat c = js_get (js_get element ''center'') ''lat''
            \<and> lng c = js_get (js_get element ''center'') ''lon'')"
  using assms by (auto simp add: extractCoordinates_def split: if_splits)

lemma extractCoordinates_type:
  assumes "extractCoordinates ev element = Inr (Some c)"
  shows "\<exists>t. js_get element ''type'' = JStr t \<and> t \<in> {''node'', ''way'', ''relation''}"
  using extractCoordinates_Some [OF assms] by auto

lemma transform_Some:
  assumes "transformToShelter ev element = Inr (Some s)"
  shows "\<exists>c t n. extractCoordinates ev element = Inr (Some c)
           \<and> js_get element ''type'' = JStr t \<and> t \<in> {''node'', ''way'', ''relation''}
           \<and> ToString ev (js_get element ''id'') = Inr n
           \<and> s_id s = ''osm_'' @ t @ ''_'' @ n
           \<and> s_lat s = lat c \<and> s_lng s = lng c"
proof -
  obtain c where c: "extractCoordinates ev element = Inr (Some c)"
    using assms by (auto simp add: transformToShelter_def split: sum.splits option.splits)
  obtain t where t: "js_get element ''type'' = JStr t" "t \<in> {''node'', ''way'', ''relation''}"
    using extractCoordinates_type [OF c] by blast
  show ?thesis
    using assms c t
    by (auto simp add: transformToShelter_def Let_def split: sum.splits if_splits)
qed

lemma transform_raises_Error:
  assumes "transformToShelter ev element = Inl e"
  shows "\<exists>m. e = Error m"
  using assms ToString_raises_Error(1)
  by (auto simp add: transformToShelter_def extractCoordinates_def TypeError_def Let_def
           split: sum.splits option.splits if_splits)

lemma transform_null: "transformToShelter ev JNull = Inl (TypeError ev (Cannot_read ''type''))"
  by (simp add: transformToShelter_def extractCoordinates_def nullish_def)

lemma transform_without_coordinates:
  assumes "\<not> nullish element"
    and "js_get element ''lat'' = JUndefined" and "js_get element ''lon'' = JUndefined"
    and "js_get element ''center'' = JUndefined"
  shows "transformToShelter ev element = Inr None"
  using assms by (simp add: transformToShelter_def extractCoordinates_def)

lemma normalized_Nil: "normalized ev [] = []"
  by (simp add: normalized_def List.map_filter_def)

lemma normalized_member:
  "s \<in> set (normalized ev elements) \<Longrightarrow>
   \<exists>element \<in> set elements. transformToShelter ev element = Inr (Some s)"
  by (auto simp add: normalized_def List.map_filter_def split: sum.splits)

lemma normalized_append: "normalized ev (xs @ ys) = normalized ev xs @ normalized ev ys"
  by (simp add: normalized_def List.map_filter_def)

lemma normalized_Cons_None:
  "transformToShelter ev element = Inr None \<Longrightarrow> normalized ev (element # ys) = normalized ev ys"
  by (simp add: normalized_def List.map_filter_def)

lemma normalized_Cons_Some:
  "transformToShelter ev element = Inr (Some s) \<Longrightarrow>
   normalized ev (element # ys) = s # normalized ev ys"
  by (simp add: normalized_def List.map_filter_def)

lemma first_error_Error: "first_error ev elements = Some e \<Longrightarrow> \<exists>m. e = Error m"
proof (induction elements)
  case Nil
  then show ?case by simp
next
  case (Cons element rest)
  then show ?case using transform_raises_Error [of ev element]
    by (auto split: sum.splits)
qed

lemma map_transform_raises:
  "first_error ev elements = Some e \<Longrightarrow> map_transformToShelter ev elements = Inl e"
  by (induction elements) (auto split: sum.splits)

lemma map_transform_returns:
  "first_error ev elements = None \<Longrightarrow>
   \<exists>results. map_transformToShelter ev elements = Inr results
            \<and> map the (filter (\<lambda>shelter. shelter \<noteq> None) results) = normalized ev elements"
proof (induction elements)
  case Nil
  show ?case by (simp add: normalized_Nil)
next
  case (Cons element rest)
  then obtain r where r: "transformToShelter ev element = Inr r" and f: "first_error ev rest = None"
    by (auto split: sum.splits)
  obtain results where m: "map_transformToShelter ev rest = Inr results"
      and n: "map the (filter (\<lambda>shelter. shelter \<noteq> None) results) = normalized ev rest"
    using Cons.IH f by blast
  show ?case
  proof (cases r)
    case None
    then show ?thesis using r m n by (simp add: normalized_Cons_None)
  next
    case (Some s)
    then show ?thesis using r m n by (simp add: normalized_Cons_Some)
  qed
qed

lemma transform_coordinates:
  assumes "transformToShelter ev element = Inr (Some s)"
  shows "(js_get element ''type'' = JStr ''node''
            \<and> js_get element ''lat'' \<noteq> JUndefined \<and> js_get element ''lon'' \<noteq> JUndefined
            \<and> s_lat s = js_get element ''lat'' \<and> s_lng s = js_get element ''lon'')
       \<or> ((js_get element ''type'' = JStr ''way'' \<or> js_get element ''type'' = JStr ''relation'')
            \<and> js_truthy (js_get element ''center'')
            \<and> s_lat s = js_get (js_get element ''center'') ''lat''
            \<and> s_lng s = js_get (js_get element ''center'') ''lon'')"
proof -
  obtain c where c: "extractCoordinates ev element = Inr (Some c)"
      and l: "s_lat s = lat c" "s_lng s = lng c"
    using transform_Some [OF assms] by blast
  show ?thesis using extractCoordinates_Some [OF c] l by simp
qed

lemma transform_raises_iff:
  "(\<exists>e. transformToShelter ev element = Inl e) =
     (nullish element
      \<or> (\<exists>c. extractCoordinates ev element = Inr (Some c))
        \<and> (\<exists>e. ToString ev (js_get element ''id'') = Inl e))"
proof (cases "extractCoordinates ev element")
  case (Inl e)
  then show ?thesis using extractCoordinates_raises [of ev element]
    by (auto simp add: transformToShelter_def)
next
  case (Inr co)
  then have n: "\<not> nullish element" using extractCoordinates_raises [of ev element] by auto
  show ?thesis
  proof (cases co)
    case None
    then show ?thesis using Inr n by (simp add: transformToShelter_def)
  next
    case (Some c)
    obtain t where t: "js_get element ''type'' = JStr t"
      using extractCoordinates_type [of ev element c] Inr Some by auto
    show ?thesis using Inr Some n t
      by (cases "ToString ev (js_get element ''id'')")
         (simp_all add: transformToShelter_def Let_def)
  qed
qed

lemma first_error_None_iff:
  "(first_error ev elements = None) =
     (\<forall>element \<in> set elements. \<forall>e. transformToShelter ev element \<noteq> Inl e)"
  by (induction elements) (auto split: sum.splits)

section \<open>The endpoint loop\<close>

lemma fetch_try_requests: "requests (snd (fetch_try ev endpoint w)) = requests w @ [endpoint]"
  by (simp add: fetch_try_def console_log_def Let_def split: http_outcome.split sum.split)

lemma fetch_try_storage: "storage (snd (fetch_try ev endpoint w)) = storage w"
  by (simp add: fetch_try_def console_log_def Let_def split: http_outcome.split sum.split)

lemma isArray_truthy: "isArray x \<Longrightarrow> js_truthy x"
  by (cases x) simp_all

lemma isArray_not_nullish: "isArray (js_get data key) \<Longrightarrow> \<not> nullish data"
  by (cases data) (simp_all add: nullish_def)

lemma fetch_try_succeeds:
  assumes "succeeds ev (post ev endpoint)"
  shows "fst (fetch_try ev endpoint w) =
           Inr (Some (normalized ev (elements_of (post ev endpoint))))"
proof -
  obtain data where p: "post ev endpoint = Response data"
    using assms by (cases "post ev endpoint") (simp_all add: succeeds_def)
  have a: "isArray (js_get data ''elements'')" using assms p by (simp add: succeeds_def)
  have f: "first_error ev (entries (js_get data ''elements'')) = None"
    using assms p by (simp add: succeeds_def)
  obtain results where m: "map_transformToShelter ev (entries (js_get data ''elements'')) = Inr results"
      and n: "map the (filter (\<lambda>shelter. shelter \<noteq> None) results)
                = normalized ev (entries (js_get data ''elements''))"
    using map_transform_returns [OF f] by blast
  show ?thesis
    using p a m n isArray_truthy [OF a] isArray_not_nullish [OF a]
    by (simp add: fetch_try_def Let_def)
qed

lemma fetch_try_continue:
  assumes "\<not> succeeds ev (post ev endpoint)" and "raised ev (post ev endpoint) = None"
  shows "fst (fetch_try ev endpoint w) = Inr None"
proof (cases "post ev endpoint")
  case (Throws err)
  then show ?thesis using assms(2) by (cases err) simp_all
next
  case (Response data)
  then show ?thesis using assms
    by (auto simp add: fetch_try_def succeeds_def Let_def split: if_splits)
qed

lemma fetch_try_raises:
  assumes "raised ev (post ev endpoint) = Some e"
  shows "\<exists>err. fst (fetch_try ev endpoint w) = Inl err
               \<and> (case err of Error m \<Rightarrow> err | NonError \<Rightarrow> Error ''Unknown error'') = e"
proof (cases "post ev endpoint")
  case (Throws err)
  then show ?thesis using assms by (cases err) (auto simp add: fetch_try_def Let_def)
next
  case (Response data)
  show ?thesis
  proof (cases "nullish data")
    case True
    then show ?thesis using assms Response by (auto simp add: fetch_try_def Let_def TypeError_def)
  next
    case False
    then have a: "isArray (js_get data ''elements'')"
        and f: "first_error ev (entries (js_get data ''elements'')) = Some e"
      using assms Response by (simp_all split: if_splits)
    obtain m where e: "e = Error m" using first_error_Error [OF f] by blast
    have "map_transformToShelter ev (entries (js_get data ''elements'')) = Inl e"
      using f by (rule map_transform_raises)
    then show ?thesis using Response False a isArray_truthy [OF a] e
      by (simp add: fetch_try_def Let_def)
  qed
qed

lemma succeeds_raised: "succeeds ev outcome \<Longrightarrow> raised ev outcome = None"
  by (cases outcome) (auto simp add: succeeds_def isArray_not_nullish)

text \<open>
  The loop sends a request to each endpoint up to and including the first whose attempt
  succeeds; the store is not touched, and the outcome does not depend on the world the
  loop starts in.
\<close>

lemma fetch_loop_requests:
  "requests (snd (fetch_loop ev eps le w)) =
     requests w @ takeWhile (\<lambda>e. \<not> succeeds ev (post ev e)) eps
               @ take 1 (dropWhile (\<lambda>e. \<not> succeeds ev (post ev e)) eps)"
proof (induction eps arbitrary: le w)
  case Nil
  show ?case by simp
next
  case (Cons endpoint rest)
  obtain r w1 where t: "fetch_try ev endpoint w = (r, w1)" by (cases "fetch_try ev endpoint w")
  have q: "requests w1 = requests w @ [endpoint]"
    using fetch_try_requests [of ev endpoint w] t by simp
  show ?case
  proof (cases "succeeds ev (post ev endpoint)")
    case True
    then have "r = Inr (Some (normalized ev (elements_of (post ev endpoint))))"
      using fetch_try_succeeds [of ev endpoint w] t by simp
    then show ?thesis using True t q by simp
  next
    case False
    show ?thesis
    proof (cases "raised ev (post ev endpoint)")
      case None
      then have "r = Inr None" using fetch_try_continue [OF False, of w] t by simp
      then show ?thesis using False t q Cons.IH by simp
    next
      case (Some e)
      then obtain err where "r = Inl err" using fetch_try_raises [of ev endpoint e w] t by auto
      then show ?thesis using False t q Cons.IH by (simp add: Let_def console_log_def)
    qed
  qed
qed

lemma fetch_loop_storage: "storage (snd (fetch_loop ev eps le w)) = storage w"
proof (induction eps arbitrary: le w)
  case Nil
  show ?case by simp
next
  case (Cons endpoint rest)
  obtain r w1 where t: "fetch_try ev endpoint w = (r, w1)" by (cases "fetch_try ev endpoint w")
  have s: "storage w1 = storage w" using fetch_try_storage [of ev endpoint w] t by simp
  show ?case using t s Cons.IH
    by (auto simp add: Let_def console_log_def split: sum.splits option.splits)
qed

lemma fetch_loop_success:
  "dropWhile (\<lambda>e. \<not> succeeds ev (post ev e)) eps = e # rest \<Longrightarrow>
   fst (fetch_loop ev eps le w) = Inr (normalized ev (elements_of (post ev e)))"
proof (induction eps arbitrary: le w)
  case Nil
  then show ?case by simp
next
  case (Cons endpoint more)
  obtain r w1 where t: "fetch_try ev endpoint w = (r, w1)" by (cases "fetch_try ev endpoint w")
  show ?case
  proof (cases "succeeds ev (post ev endpoint)")
    case True
    then have "r = Inr (Some (normalized ev (elements_of (post ev endpoint))))"
      using fetch_try_succeeds [of ev endpoint w] t by simp
    then show ?thesis using True t Cons.prems by simp
  next
    case False
    then have d: "dropWhile (\<lambda>e. \<not> succeeds ev (post ev e)) more = e # rest"
      using Cons.prems by simp
    show ?thesis
    proof (cases "raised ev (post ev endpoint)")
      case None
      then have "r = Inr None" using fetch_try_continue [OF False, of w] t by simp
      then show ?thesis using t Cons.IH [OF d] by simp
    next
      case (Some x)
      then obtain err where "r = Inl err" using fetch_try_raises [of ev endpoint x w] t by auto
      then show ?thesis using t Cons.IH [OF d] by (simp add: Let_def)
    qed
  qed
qed

lemma map_filter_Cons_None: "f x = None \<Longrightarrow> List.map_filter f (x # xs) = List.map_filter f xs"
  by (simp add: List.map_filter_def)

lemma map_filter_Cons_Some: "f x = Some y \<Longrightarrow> List.map_filter f (x # xs) = y # List.map_filter f xs"
  by (simp add: List.map_filter_def)

lemma failure_reason_Cons_None:
  "raised ev outcome = None \<Longrightarrow>
   failure_reason ev le (outcome # outcomes) = failure_reason ev le outcomes"
  by (simp add: failure_reason_def map_filter_Cons_None)

lemma failure_reason_Cons_Some:
  "raised ev outcome = Some e \<Longrightarrow>
   failure_reason ev le (outcome # outcomes) = failure_reason ev (Some e) outcomes"
  by (simp add: failure_reason_def map_filter_Cons_Some split: list.split)

lemma fetch_loop_failure:
  "\<forall>e \<in> set eps. \<not> succeeds ev (post ev e) \<Longrightarrow>
   fst (fetch_loop ev eps le w) = Inl (failure_reason ev le (map (post ev) eps))"
proof (induction eps arbitrary: le w)
  case Nil
  show ?case by (simp add: failure_reason_def List.map_filter_def)
next
  case (Cons endpoint more)
  then have IH: "\<And>le w. fst (fetch_loop ev more le w) = Inl (failure_reason ev le (map (post ev) more))"
    by simp
  have n: "\<not> succeeds ev (post ev endpoint)" using Cons.prems by simp
  obtain r w1 where t: "fetch_try ev endpoint w = (r, w1)" by (cases "fetch_try ev endpoint w")
  show ?case
  proof (cases "raised ev (post ev endpoint)")
    case None
    then have "r = Inr None" using fetch_try_continue [OF n, of w] t by simp
    then show ?thesis using t IH None by (simp add: failure_reason_Cons_None)
  next
    case (Some x)
    then obtain err where r: "r = Inl err"
        and x: "(case err of Error m \<Rightarrow> err | NonError \<Rightarrow> Error ''Unknown error'') = x"
      using fetch_try_raises [of ev endpoint x w] t by auto
    show ?thesis using t r x IH Some
      by (cases err) (auto simp add: Let_def failure_reason_Cons_Some)
  qed
qed

lemma fetch_loop_fst_world: "fst (fetch_loop ev eps le w) = fst (fetch_loop ev eps le w')"
proof (cases "dropWhile (\<lambda>e. \<not> succeeds ev (post ev e)) eps")
  case Nil
  then have "\<forall>e \<in> set eps. \<not> succeeds ev (post ev e)" by (simp add: dropWhile_eq_Nil_conv)
  then show ?thesis by (simp add: fetch_loop_failure)
next
  case (Cons e rest)
  then show ?thesis by (simp add: fetch_loop_success)
qed

lemma fetch_loop_Inr:
  "fst (fetch_loop ev eps le w) = Inr records \<Longrightarrow>
   \<exists>endpoint \<in> set eps. succeeds ev (post ev endpoint)
                        \<and> records = normalized ev (elements_of (post ev endpoint))"
proof (cases "dropWhile (\<lambda>e. \<not> succeeds ev (post ev e)) eps")
  case Nil
  then have "\<forall>e \<in> set eps. \<not> succeeds ev (post ev e)"
    by (simp add: dropWhile_eq_Nil_conv)
  then have "fst (fetch_loop ev eps le w) = Inl (failure_reason ev le (map (post ev) eps))"
    by (rule fetch_loop_failure)
  moreover assume "fst (fetch_loop ev eps le w) = Inr records"
  ultimately show ?thesis by simp
next
  case (Cons e rest)
  assume r: "fst (fetch_loop ev eps le w) = Inr records"
  have "e \<in> set (dropWhile (\<lambda>e. \<not> succeeds ev (post ev e)) eps)" using Cons by simp
  then have m: "e \<in> set eps" by (rule set_dropWhileD)
  have s: "succeeds ev (post ev e)" using Cons hd_dropWhile [of "\<lambda>e. \<not> succeeds ev (post ev e)" eps] by simp
  have "fst (fetch_loop ev eps le w) = Inr (normalized ev (elements_of (post ev e)))"
    using Cons by (rule fetch_loop_success)
  then show ?thesis using r m s by auto
qed

lemma fetchFromAPI_storage: "storage (snd (fetchFromAPI ev w)) = storage w"
  by (simp add: fetchFromAPI_def fetch_loop_storage)

lemma fetchFromAPI_fst_world: "fst (fetchFromAPI ev w) = fst (fetchFromAPI ev w')"
  unfolding fetchFromAPI_def by (rule fetch_loop_fst_world)

section \<open>The cache functions\<close>

lemma keys_differ: "STORAGE_KEY \<noteq> STORAGE_TIMESTAMP_KEY"
  by (simp add: STORAGE_KEY_def STORAGE_TIMESTAMP_KEY_def)

lemma loadFromCache_returns: "\<exists>c w'. loadFromCache ev w = (Inr c, w')"
  by (simp add: loadFromCache_def split: prod.split sum.split)

lemma saveToCache_returns: "\<exists>w'. saveToCache ev s w = (Inr (), w')"
  by (simp add: saveToCache_def Let_def split: prod.split sum.split)

lemma loadFromCache_storage: "storage (snd (loadFromCache ev w)) = storage w"
  by (simp add: loadFromCache_def loadFromCache_try_def console_log_def Let_def
           split: prod.split sum.split option.split)

lemma saveToCache_storage:
  "storage (snd (saveToCache ev records w)) = store_after_save ev records (storage w)"
  by (simp add: saveToCache_def store_after_save_def AsyncStorage_setItem_def console_log_def
             Promise_all_def Let_def split: prod.split sum.split option.split)

lemma loadFromCache_stored:
  assumes "getItem_rejects ev STORAGE_KEY = None" and "getItem_rejects ev STORAGE_TIMESTAMP_KEY = None"
    and "storage w STORAGE_KEY = Some text" and "text \<noteq> []"
  shows "fst (loadFromCache ev w) =
           Inr (case JSON_parse ev text of Inl e \<Rightarrow> None | Inr shelters \<Rightarrow> Some shelters)"
  using assms
  by (simp add: loadFromCache_def loadFromCache_try_def AsyncStorage_getItem_def Promise_all_def
        Let_def split: sum.split)

lemma loadFromCache_absent:
  assumes "getItem_rejects ev STORAGE_KEY = None" and "getItem_rejects ev STORAGE_TIMESTAMP_KEY = None"
    and "storage w STORAGE_KEY = None"
  shows "fst (loadFromCache ev w) = Inr None"
  using assms
  by (simp add: loadFromCache_def loadFromCache_try_def AsyncStorage_getItem_def Promise_all_def)

lemma loadFromCache_rejected:
  "getItem_rejects ev STORAGE_KEY = Some e \<Longrightarrow> fst (loadFromCache ev w) = Inr None"
  by (simp add: loadFromCache_def loadFromCache_try_def AsyncStorage_getItem_def Promise_all_def)

lemma loadFromCache_stale_console:
  assumes "getItem_rejects ev STORAGE_KEY = None" and "getItem_rejects ev STORAGE_TIMESTAMP_KEY = None"
    and "storage w STORAGE_KEY = Some text" and "text \<noteq> []"
    and "storage w STORAGE_TIMESTAMP_KEY = Some (show_int t)"
    and "now ev - t > CACHE_MAX_AGE"
    and "JSON_parse ev text = Inr shelters"
  shows "console (snd (loadFromCache ev w)) =
           console w @ [Log_CacheExpired ((now ev - t + 1800000) div 3600000),
                        Log_Loaded (length shelters)]"
  using assms
  by (simp add: loadFromCache_def loadFromCache_try_def AsyncStorage_getItem_def Promise_all_def
        Let_def parseInt_show_int show_int_nonempty console_log_def)

section \<open>The service functions\<close>

lemma getShelters_fallback_returns: "\<exists>r w'. getShelters_fallback w = (Inr r, w')"
  by (simp add: getShelters_fallback_def)

lemma getShelters_catch_returns: "\<exists>r w'. getShelters_catch c e w = (Inr r, w')"
  by (simp add: getShelters_catch_def getShelters_fallback_def Let_def)

lemma getShelters_returns: "\<exists>r w'. getShelters ev w = (Inr r, w')"
proof -
  obtain c w1 where l: "loadFromCache ev w = (Inr c, w1)"
    using loadFromCache_returns by blast
  obtain f w2 where f: "fetchFromAPI ev w1 = (f, w2)"
    by (cases "fetchFromAPI ev w1")
  show ?thesis
  proof (cases f)
    case (Inl e)
    then show ?thesis using l f getShelters_catch_returns [of c e w2]
      by (simp add: getShelters_def)
  next
    case (Inr apiShelters)
    obtain w3 where s: "saveToCache ev apiShelters w2 = (Inr (), w3)"
      using saveToCache_returns by blast
    show ?thesis using l f Inr s getShelters_fallback_returns [of w2]
      by (simp add: getShelters_def)
  qed
qed

lemma refreshShelters_catch_returns: "\<exists>r w'. refreshShelters_catch ev e w = (Inr r, w')"
proof -
  obtain c w1 where l: "loadFromCache ev w = (Inr c, w1)"
    using loadFromCache_returns by blast
  then show ?thesis by (simp add: refreshShelters_catch_def Let_def)
qed

lemma refreshShelters_returns: "\<exists>r w'. refreshShelters ev w = (Inr r, w')"
proof -
  obtain f w1 where f: "fetchFromAPI ev w = (f, w1)"
    by (cases "fetchFromAPI ev w")
  show ?thesis
  proof (cases f)
    case (Inl e)
    then show ?thesis using f refreshShelters_catch_returns [of ev e w1]
      by (simp add: refreshShelters_def)
  next
    case (Inr apiShelters)
    obtain w2 where s: "saveToCache ev apiShelters w1 = (Inr (), w2)"
      using saveToCache_returns by blast
    obtain c w3 where l: "loadFromCache ev w1 = (Inr c, w3)"
      using loadFromCache_returns by blast
    show ?thesis using f Inr s l
      by (simp add: refreshShelters_def)
  qed
qed

lemma FALLBACK_SHELTERS_nonempty: "FALLBACK_SHELTERS \<noteq> []"
  by (simp add: FALLBACK_SHELTERS_def)

lemma getShelters_fallback_tagged: "\<exists>r. fst (getShelters_fallback w) = Inr r \<and> well_tagged r"
  by (simp add: getShelters_fallback_def well_tagged_def FALLBACK_SHELTERS_nonempty)

lemma getShelters_catch_tagged: "\<exists>r. fst (getShelters_catch c e w) = Inr r \<and> well_tagged r"
  by (simp add: getShelters_catch_def getShelters_fallback_def well_tagged_def Let_def
        FALLBACK_SHELTERS_nonempty)

lemma getShelters_tagged: "\<exists>r. fst (getShelters ev w) = Inr r \<and> well_tagged r"
proof -
  obtain c w1 where l: "loadFromCache ev w = (Inr c, w1)"
    using loadFromCache_returns by blast
  obtain f w2 where f: "fetchFromAPI ev w1 = (f, w2)"
    by (cases "fetchFromAPI ev w1")
  show ?thesis
  proof (cases f)
    case (Inl e)
    then show ?thesis using l f getShelters_catch_tagged [of c e w2]
      by (simp add: getShelters_def)
  next
    case (Inr apiShelters)
    obtain w3 where s: "saveToCache ev apiShelters w2 = (Inr (), w3)"
      using saveToCache_returns by blast
    show ?thesis using l f Inr s getShelters_fallback_tagged [of w2]
      by (auto simp add: getShelters_def well_tagged_def)
  qed
qed

lemma refreshShelters_catch_tagged: "\<exists>r. fst (refreshShelters_catch ev e w) = Inr r \<and> well_tagged r"
proof -
  obtain c w1 where l: "loadFromCache ev w = (Inr c, w1)"
    using loadFromCache_returns by blast
  then show ?thesis
    by (simp add: refreshShelters_catch_def Let_def well_tagged_def FALLBACK_SHELTERS_nonempty)
qed

lemma refreshShelters_tagged: "\<exists>r. fst (refreshShelters ev w) = Inr r \<and> well_tagged r"
proof -
  obtain f w1 where f: "fetchFromAPI ev w = (f, w1)"
    by (cases "fetchFromAPI ev w")
  show ?thesis
  proof (cases f)
    case (Inl e)
    then show ?thesis using f refreshShelters_catch_tagged [of ev e w1]
      by (simp add: refreshShelters_def)
  next
    case (Inr apiShelters)
    obtain w2 where s: "saveToCache ev apiShelters w1 = (Inr (), w2)"
      using saveToCache_returns by blast
    obtain c w3 where l: "loadFromCache ev w1 = (Inr c, w3)"
      using loadFromCache_returns by blast
    show ?thesis using f Inr s l
      by (auto simp add: refreshShelters_def well_tagged_def FALLBACK_SHELTERS_nonempty)
  qed
qed

lemma getShelters_api:
  assumes "fst (fetchFromAPI ev w) = Inr records" and "records \<noteq> []"
  shows "fst (getShelters ev w) = Inr \<lparr>r_shelters = records, r_source = Api, r_error = None\<rparr>"
    and "storage (snd (getShelters ev w)) = store_after_save ev records (storage w)"
proof -
  obtain c w1 where l: "loadFromCache ev w = (Inr c, w1)"
    using loadFromCache_returns by blast
  have s1: "storage w1 = storage w" using loadFromCache_storage [of ev w] l by simp
  obtain f w2 where f: "fetchFromAPI ev w1 = (f, w2)"
    by (cases "fetchFromAPI ev w1")
  have ff: "f = Inr records" using fetchFromAPI_fst_world [of ev w1 w] f assms(1) by simp
  have s2: "storage w2 = storage w" using fetchFromAPI_storage [of ev w1] f s1 by simp
  obtain w3 where s: "saveToCache ev records w2 = (Inr (), w3)"
    using saveToCache_returns by blast
  have s3: "storage w3 = store_after_save ev records (storage w)"
    using saveToCache_storage [of ev records w2] s s2 by simp
  show "fst (getShelters ev w) = Inr \<lparr>r_shelters = records, r_source = Api, r_error = None\<rparr>"
    using l f ff s assms(2) by (simp add: getShelters_def)
  show "storage (snd (getShelters ev w)) = store_after_save ev records (storage w)"
    using l f ff s s3 assms(2) by (simp add: getShelters_def)
qed

lemma getShelters_catch_storage: "storage (snd (getShelters_catch c e w)) = storage w"
  by (simp add: getShelters_catch_def getShelters_fallback_def console_log_def Let_def)

lemma getShelters_no_records:
  assumes "\<forall>records. fst (fetchFromAPI ev w) = Inr records \<longrightarrow> records = []"
  shows "storage (snd (getShelters ev w)) = storage w"
proof -
  obtain c w1 where l: "loadFromCache ev w = (Inr c, w1)"
    using loadFromCache_returns by blast
  have s1: "storage w1 = storage w" using loadFromCache_storage [of ev w] l by simp
  obtain f w2 where f: "fetchFromAPI ev w1 = (f, w2)"
    by (cases "fetchFromAPI ev w1")
  have ff: "fst (fetchFromAPI ev w) = f" using fetchFromAPI_fst_world [of ev w1 w] f by simp
  have s2: "storage w2 = storage w" using fetchFromAPI_storage [of ev w1] f s1 by simp
  show ?thesis
  proof (cases f)
    case (Inl e)
    then show ?thesis using l f s2 getShelters_catch_storage [of c e w2]
      by (simp add: getShelters_def)
  next
    case (Inr records)
    then have "records = []" using assms ff by simp
    then show ?thesis using l f Inr s2
      by (simp add: getShelters_def getShelters_fallback_def console_log_def)
  qed
qed

lemma refreshShelters_catch_storage: "storage (snd (refreshShelters_catch ev e w)) = storage w"
proof -
  obtain c w1 where l: "loadFromCache ev w = (Inr c, w1)"
    using loadFromCache_returns by blast
  have s1: "storage w1 = storage w" using loadFromCache_storage [of ev w] l by simp
  show ?thesis using l s1 by (simp add: refreshShelters_catch_def Let_def)
qed

lemma refreshShelters_no_records:
  assumes "\<forall>records. fst (fetchFromAPI ev w) = Inr records \<longrightarrow> records = []"
  shows "storage (snd (refreshShelters ev w)) = storage w"
proof -
  obtain f w1 where f: "fetchFromAPI ev w = (f, w1)"
    by (cases "fetchFromAPI ev w")
  have s1: "storage w1 = storage w" using fetchFromAPI_storage [of ev w] f by simp
  show ?thesis
  proof (cases f)
    case (Inl e)
    then show ?thesis using f s1 refreshShelters_catch_storage [of ev e w1]
      by (simp add: refreshShelters_def)
  next
    case (Inr records)
    then have e: "records = []" using assms f by simp
    obtain c w2 where l: "loadFromCache ev w1 = (Inr c, w2)"
      using loadFromCache_returns by blast
    have s2: "storage w2 = storage w" using loadFromCache_storage [of ev w1] l s1 by simp
    show ?thesis using f Inr e l s2 by (simp add: refreshShelters_def)
  qed
qed

lemma refreshShelters_api:
  assumes "fst (fetchFromAPI ev w) = Inr records" and "records \<noteq> []"
  shows "fst (refreshShelters ev w) = Inr \<lparr>r_shelters = records, r_source = Api, r_error = None\<rparr>"
    and "storage (snd (refreshShelters ev w)) = store_after_save ev records (storage w)"
proof -
  obtain w1 where f: "fetchFromAPI ev w = (Inr records, w1)"
    using assms(1) by (cases "fetchFromAPI ev w") simp
  have s1: "storage w1 = storage w" using fetchFromAPI_storage [of ev w] f by simp
  obtain w2 where s: "saveToCache ev records w1 = (Inr (), w2)"
    using saveToCache_returns by blast
  have s2: "storage w2 = store_after_save ev records (storage w)"
    using saveToCache_storage [of ev records w1] s s1 by simp
  show "fst (refreshShelters ev w) = Inr \<lparr>r_shelters = records, r_source = Api, r_error = None\<rparr>"
    using f s assms(2) by (simp add: refreshShelters_def)
  show "storage (snd (refreshShelters ev w)) = store_after_save ev records (storage w)"
    using f s s2 assms(2) by (simp add: refreshShelters_def)
qed

section \<open>Where a result comes from, and rejected storage calls\<close>

lemma getItem_storage:
  "storage w = storage w' \<Longrightarrow> AsyncStorage_getItem ev w key = AsyncStorage_getItem ev w' key"
  by (simp add: AsyncStorage_getItem_def split: option.split)

lemma loadFromCache_try_fst_storage:
  assumes "storage w = storage w'"
  shows "fst (loadFromCache_try ev w) = fst (loadFromCache_try ev w')"
proof -
  have g: "AsyncStorage_getItem ev w STORAGE_KEY = AsyncStorage_getItem ev w' STORAGE_KEY"
          "AsyncStorage_getItem ev w STORAGE_TIMESTAMP_KEY = AsyncStorage_getItem ev w' STORAGE_TIMESTAMP_KEY"
    using assms by (rule getItem_storage)+
  show ?thesis
  proof (cases "Promise_all (AsyncStorage_getItem ev w' STORAGE_KEY)
                            (AsyncStorage_getItem ev w' STORAGE_TIMESTAMP_KEY)")
    case (Inl e)
    then show ?thesis by (simp add: loadFromCache_try_def g)
  next
    case (Inr p)
    obtain cachedData timestampStr where p: "p = (cachedData, timestampStr)" by (cases p)
    show ?thesis
    proof (cases "truthy cachedData")
      case False
      then show ?thesis using Inr p by (simp add: loadFromCache_try_def g)
    next
      case True
      then show ?thesis using Inr p
        by (cases "JSON_parse ev (the cachedData)") (simp_all add: loadFromCache_try_def g Let_def)
    qed
  qed
qed

lemma loadFromCache_fst_storage:
  assumes "storage w = storage w'"
  shows "fst (loadFromCache ev w) = fst (loadFromCache ev w')"
proof -
  have "fst (loadFromCache_try ev w) = fst (loadFromCache_try ev w')"
    using assms by (rule loadFromCache_try_fst_storage)
  then show ?thesis
    by (cases "loadFromCache_try ev w"; cases "loadFromCache_try ev w'")
       (auto simp add: loadFromCache_def split: sum.splits)
qed

lemma saveToCache_rejected:
  assumes "setItem_rejects ev STORAGE_KEY = Some e"
  shows "saveToCache ev records w =
           (Inr (), console_log (Error_SavingToCache e)
                      (snd (AsyncStorage_setItem ev STORAGE_TIMESTAMP_KEY (show_int (now ev)) w)))"
  using assms
  by (simp add: saveToCache_def AsyncStorage_setItem_def Promise_all_def Let_def
           split: option.split)

lemma saveToCache_rejected_console:
  assumes "setItem_rejects ev STORAGE_KEY = Some e"
  shows "console (snd (saveToCache ev records w)) = console w @ [Error_SavingToCache e]"
  using assms
  by (simp add: saveToCache_rejected AsyncStorage_setItem_def console_log_def split: option.split)

lemma loadFromCache_rejected_console:
  assumes "getItem_rejects ev STORAGE_KEY \<noteq> None \<or> getItem_rejects ev STORAGE_TIMESTAMP_KEY \<noteq> None"
  shows "fst (loadFromCache ev w) = Inr None
       \<and> (\<exists>e. console (snd (loadFromCache ev w)) = console w @ [Error_LoadingCache e])"
proof -
  obtain e where "Promise_all (AsyncStorage_getItem ev w STORAGE_KEY)
                              (AsyncStorage_getItem ev w STORAGE_TIMESTAMP_KEY) = Inl e"
    using assms
    by (cases "getItem_rejects ev STORAGE_KEY"; cases "getItem_rejects ev STORAGE_TIMESTAMP_KEY")
       (auto simp add: AsyncStorage_getItem_def Promise_all_def)
  then have "loadFromCache ev w = (Inr None, console_log (Error_LoadingCache e) w)"
    by (simp add: loadFromCache_def loadFromCache_try_def)
  then show ?thesis by (simp add: console_log_def)
qed

lemma getShelters_catch_source:
  "fst (getShelters_catch c e w) = Inr r \<Longrightarrow>
   (r_source r = Cache \<and> c = Some (r_shelters r)) \<or> r_source r = Fallback"
  by (auto simp add: getShelters_catch_def getShelters_fallback_def Let_def split: if_splits)

lemma getShelters_source:
  assumes "fst (getShelters ev w) = Inr r"
  shows "(r_source r = Api \<and> r_shelters r \<noteq> [] \<and> fst (fetchFromAPI ev w) = Inr (r_shelters r))
       \<or> (r_source r = Cache \<and> fst (loadFromCache ev w) = Inr (Some (r_shelters r)))
       \<or> (r_source r = Fallback \<and> r_shelters r = FALLBACK_SHELTERS)"
proof -
  obtain c w1 where l: "loadFromCache ev w = (Inr c, w1)"
    using loadFromCache_returns by blast
  obtain f w2 where f: "fetchFromAPI ev w1 = (f, w2)"
    by (cases "fetchFromAPI ev w1")
  have ff: "fst (fetchFromAPI ev w) = f" using fetchFromAPI_fst_world [of ev w1 w] f by simp
  show ?thesis
  proof (cases f)
    case (Inl e)
    then have "fst (getShelters_catch c e w2) = Inr r"
      using assms l f by (simp add: getShelters_def)
    then show ?thesis using getShelters_catch_source [of c e w2 r] l
      by (auto simp add: getShelters_fallback_def getShelters_catch_def Let_def split: if_splits)
  next
    case (Inr apiShelters)
    show ?thesis
    proof (cases "apiShelters = []")
      case False
      have "fst (getShelters ev w) =
              Inr \<lparr>r_shelters = apiShelters, r_source = Api, r_error = None\<rparr>"
        using ff Inr False by (simp add: getShelters_api(1))
      then have "r = \<lparr>r_shelters = apiShelters, r_source = Api, r_error = None\<rparr>"
        using assms by simp
      then show ?thesis using False ff Inr by simp
    next
      case True
      have "r = (if c \<noteq> None \<and> 0 < length (the c)
                 then \<lparr>r_shelters = the c, r_source = Cache,
                       r_error = Some ''API returned empty results, using cached data''\<rparr>
                 else \<lparr>r_shelters = FALLBACK_SHELTERS, r_source = Fallback,
                       r_error = Some ''No network connection and no cached data available''\<rparr>)"
        using assms l f Inr True
        by (auto simp add: getShelters_def getShelters_fallback_def split: if_splits)
      then show ?thesis using l by (cases c) (simp_all split: if_splits)
    qed
  qed
qed

lemma refreshShelters_catch_source:
  assumes "fst (refreshShelters_catch ev e w) = Inr r"
  shows "(r_source r = Cache \<and> fst (loadFromCache ev w) = Inr (Some (r_shelters r)))
       \<or> (r_source r = Fallback \<and> r_shelters r = FALLBACK_SHELTERS)"
proof -
  obtain c w1 where l: "loadFromCache ev w = (Inr c, w1)"
    using loadFromCache_returns by blast
  show ?thesis using assms l
    by (auto simp add: refreshShelters_catch_def Let_def split: if_splits)
qed

lemma refreshShelters_source:
  assumes "fst (refreshShelters ev w) = Inr r"
  shows "(r_source r = Api \<and> r_shelters r \<noteq> [] \<and> fst (fetchFromAPI ev w) = Inr (r_shelters r))
       \<or> (r_source r = Cache \<and> fst (loadFromCache ev w) = Inr (Some (r_shelters r)))
       \<or> (r_source r = Fallback \<and> r_shelters r = FALLBACK_SHELTERS)"
proof -
  obtain f w1 where f: "fetchFromAPI ev w = (f, w1)"
    by (cases "fetchFromAPI ev w")
  have s1: "storage w1 = storage w" using fetchFromAPI_storage [of ev w] f by simp
  have lw: "fst (loadFromCache ev w1) = fst (loadFromCache ev w)"
    using s1 by (rule loadFromCache_fst_storage)
  show ?thesis
  proof (cases f)
    case (Inl e)
    then have "fst (refreshShelters_catch ev e w1) = Inr r"
      using assms f by (simp add: refreshShelters_def)
    then show ?thesis using refreshShelters_catch_source [of ev e w1 r] lw by auto
  next
    case (Inr apiShelters)
    show ?thesis
    proof (cases "apiShelters = []")
      case False
      have "fst (fetchFromAPI ev w) = Inr apiShelters" using f Inr by simp
      then have "fst (refreshShelters ev w) =
                   Inr \<lparr>r_shelters = apiShelters, r_source = Api, r_error = None\<rparr>"
        using False by (rule refreshShelters_api(1))
      then have "r = \<lparr>r_shelters = apiShelters, r_source = Api, r_error = None\<rparr>"
        using assms by simp
      then show ?thesis using False f Inr by simp
    next
      case True
      obtain c w3 where l: "loadFromCache ev w1 = (Inr c, w3)"
        using loadFromCache_returns by blast
      have lc: "fst (loadFromCache ev w) = Inr c" using l lw by simp
      have "r = (if c \<noteq> None \<and> 0 < length (the c)
                 then \<lparr>r_shelters = the c, r_source = Cache,
                       r_error = Some ''Refresh returned empty results''\<rparr>
                 else \<lparr>r_shelters = FALLBACK_SHELTERS, r_source = Fallback,
                       r_error = Some ''Refresh failed''\<rparr>)"
        using assms f Inr True l by (auto simp add: refreshShelters_def split: if_splits)
      then show ?thesis using lc by (cases c) (simp_all split: if_splits)
    qed
  qed
qed

lemma FALLBACK_SHELTERS_valid: "list_all valid_coordinates FALLBACK_SHELTERS"
  by (simp add: FALLBACK_SHELTERS_def valid_coordinates_def)

section \<open>The examples, evaluated\<close>

lemma digit_char_numerals:
  "digit_char 0 = CHR ''0''" "digit_char 1 = CHR ''1''" "digit_char 2 = CHR ''2''"
  "digit_char 3 = CHR ''3''" "digit_char 4 = CHR ''4''" "digit_char 5 = CHR ''5''"
  "digit_char 6 = CHR ''6''" "digit_char 7 = CHR ''7''" "digit_char 8 = CHR ''8''"
  "digit_char 9 = CHR ''9''" "digit_char (Suc 0) = CHR ''1''"
  by code_simp+

lemma show_int_42: "show_int 42 = ''42''"
  by code_simp

lemma show_int_1: "show_int 1 = ''1''"
  by code_simp

lemma show_int_2: "show_int 2 = ''2''"
  by code_simp

lemma show_int_timestamp: "show_int 1700000000000 = ''1700000000000''"
  by (simp add: show_int_def show_nat.simps digit_char_numerals)

lemma ToString_42: "ToString ev (JNum 42) = Inr ''42''"
  using ToString_integer [of ev 42] by (simp add: show_int_42)

lemma ToString_1: "ToString ev (JNum 1) = Inr ''1''"
  using ToString_integer [of ev 1] by (simp add: show_int_1)

lemma ToString_2: "ToString ev (JNum 2) = Inr ''2''"
  using ToString_integer [of ev 2] by (simp add: show_int_2)

lemma capitalised_unknown:
  "toUpperCase (take 1 (type_string Unknown)) @ drop 1 (type_string Unknown) = ''Unknown''"
  by code_simp

lemma transform_city_hospital_way: "transformToShelter ev city_hospital_way = Inr (Some city_hospital)"
  by (simp add: transformToShelter_def extractCoordinates_def city_hospital_way_def
        city_hospital_def mapAmenityToType_def optional_def nullish_def number_toString_def show_int_42)

lemma transform_node_42:
  "transformToShelter ev node_42 =
     Inr (Some \<lparr>s_id = ''osm_node_42'', s_type = Unknown, s_lat = JNum 45.7, s_lng = JNum 21.3,
                s_name = JStr ''Unknown #42'', s_capacity = JUndefined\<rparr>)"
  by (simp add: transformToShelter_def extractCoordinates_def node_42_def
        mapAmenityToType_def optional_def nullish_def number_toString_def show_int_42 capitalised_unknown [simplified])

lemma transform_far_node: "transformToShelter ev far_node = Inr (Some far_shelter)"
  by (simp add: transformToShelter_def extractCoordinates_def far_node_def far_shelter_def
        mapAmenityToType_def optional_def nullish_def number_toString_def show_int_1 capitalised_unknown [simplified])

lemma transform_null_node: "transformToShelter ev null_node = Inr (Some null_shelter)"
  by (simp add: transformToShelter_def extractCoordinates_def null_node_def null_shelter_def
        mapAmenityToType_def optional_def nullish_def number_toString_def show_int_2 capitalised_unknown [simplified])

lemma transform_bare_node: "transformToShelter ev bare_node = Inr None"
  by (rule transform_without_coordinates) (simp_all add: bare_node_def nullish_def)

lemma body_elements: "js_get (body elements) ''elements'' = JArr elements"
  by (simp add: body_def)

lemma body_not_nullish: "\<not> nullish (body elements)"
  by (simp add: body_def nullish_def)

lemma test_stringify_city_hospital: "test_stringify [city_hospital] = ''[osm_way_42;]''"
  by (simp add: test_stringify_def city_hospital_def)

lemma test_stringify_fallback:
  "test_stringify FALLBACK_SHELTERS = ''[fallback_1;fallback_2;fallback_3;fallback_4;fallback_5;]''"
  by (simp add: test_stringify_def FALLBACK_SHELTERS_def)

lemma test_stringify_Nil: "test_stringify [] = ''[]''"
  by (simp add: test_stringify_def)

lemma endpoint_0: "OVERPASS_ENDPOINTS ! 0 = ''https://overpass-api.de/api/interpreter''"
  by (simp add: OVERPASS_ENDPOINTS_def)

lemma endpoint_1:
  "OVERPASS_ENDPOINTS ! 1 = ''https://lz4.overpass-api.de/api/interpreter''"
  "OVERPASS_ENDPOINTS ! Suc 0 = ''https://lz4.overpass-api.de/api/interpreter''"
  by (simp_all add: OVERPASS_ENDPOINTS_def)

lemma endpoints_list:
  "OVERPASS_ENDPOINTS = [OVERPASS_ENDPOINTS ! 0, OVERPASS_ENDPOINTS ! 1, OVERPASS_ENDPOINTS ! 2]"
  by (simp add: OVERPASS_ENDPOINTS_def)

lemma succeeds_body:
  "first_error ev elements = None \<Longrightarrow> post ev endpoint = Response (body elements) \<Longrightarrow>
   succeeds ev (post ev endpoint)"
  by (simp add: succeeds_def body_elements)

lemma fetch_first_endpoint:
  assumes "post ev (OVERPASS_ENDPOINTS ! 0) = Response (body elements)"
    and "first_error ev elements = None"
  shows "fst (fetchFromAPI ev w) = Inr (normalized ev elements)"
proof -
  have s: "succeeds ev (post ev (OVERPASS_ENDPOINTS ! 0))"
    using assms by (simp add: succeeds_def body_elements)
  have "dropWhile (\<lambda>e. \<not> succeeds ev (post ev e)) OVERPASS_ENDPOINTS =
          [OVERPASS_ENDPOINTS ! 0, OVERPASS_ENDPOINTS ! 1, OVERPASS_ENDPOINTS ! 2]"
    using s by (subst endpoints_list) simp
  then have "fst (fetchFromAPI ev w) =
               Inr (normalized ev (elements_of (post ev (OVERPASS_ENDPOINTS ! 0))))"
    unfolding fetchFromAPI_def by (rule fetch_loop_success)
  then show ?thesis using assms(1) by (simp add: body_elements)
qed

lemma normalized_city_hospital_way: "normalized ev [city_hospital_way] = [city_hospital]"
  by (simp add: normalized_Cons_Some [OF transform_city_hospital_way] normalized_Nil)

lemma first_error_city_hospital_way: "first_error ev [city_hospital_way] = None"
  by (simp add: transform_city_hospital_way)

lemma fetch_online: "fst (fetchFromAPI online_env w) = Inr [city_hospital]"
proof -
  have "post online_env (OVERPASS_ENDPOINTS ! 0) = Response (body [city_hospital_way])"
    by (simp add: online_env_def)
  then have "fst (fetchFromAPI online_env w) = Inr (normalized online_env [city_hospital_way])"
    using first_error_city_hospital_way by (rule fetch_first_endpoint)
  then show ?thesis by (simp add: normalized_city_hospital_way)
qed

lemma fetch_readonly: "fst (fetchFromAPI readonly_env w) = Inr [city_hospital]"
proof -
  have "post readonly_env (OVERPASS_ENDPOINTS ! 0) = Response (body [city_hospital_way])"
    by (simp add: readonly_env_def online_env_def)
  then have "fst (fetchFromAPI readonly_env w) = Inr (normalized readonly_env [city_hospital_way])"
    using first_error_city_hospital_way by (rule fetch_first_endpoint)
  then show ?thesis by (simp add: normalized_city_hospital_way)
qed

lemma fetch_far: "fst (fetchFromAPI far_env w) = Inr [far_shelter, null_shelter]"
proof -
  have "post far_env (OVERPASS_ENDPOINTS ! 0) = Response (body [far_node, null_node])"
    by (simp add: far_env_def)
  moreover have "first_error far_env [far_node, null_node] = None"
    by (simp add: transform_far_node transform_null_node)
  ultimately have "fst (fetchFromAPI far_env w) = Inr (normalized far_env [far_node, null_node])"
    by (rule fetch_first_endpoint)
  then show ?thesis
    by (simp add: normalized_Cons_Some [OF transform_far_node]
          normalized_Cons_Some [OF transform_null_node] normalized_Nil)
qed

lemma fetch_empty: "fst (fetchFromAPI empty_env w) = Inr []"
proof -
  have "post empty_env (OVERPASS_ENDPOINTS ! 0) = Response (body [])"
    by (simp add: empty_env_def)
  moreover have "first_error empty_env [] = None" by simp
  ultimately have "fst (fetchFromAPI empty_env w) = Inr (normalized empty_env [])"
    by (rule fetch_first_endpoint)
  then show ?thesis by (simp add: normalized_Nil)
qed

text \<open>The same runs, by evaluation of the loop itself.\<close>

lemma fetch_offline: "fst (fetchFromAPI offline_env w) = Inl (Error ''timeout of 30000ms exceeded'')"
  by (simp add: fetchFromAPI_def OVERPASS_ENDPOINTS_def fetch_try_def offline_env_def Let_def)

lemma fetch_broken: "fst (fetchFromAPI broken_env w) = Inl (Error ''timeout of 30000ms exceeded'')"
  by (simp add: fetchFromAPI_def OVERPASS_ENDPOINTS_def fetch_try_def broken_env_def
        offline_env_def Let_def)

lemma fetch_malformed_after_timeout:
  "fst (fetchFromAPI malformed_after_timeout_env w) = Inl (Error ''timeout of 30000ms exceeded'')"
  by (simp add: fetchFromAPI_def OVERPASS_ENDPOINTS_def fetch_try_def
        malformed_after_timeout_env_def offline_env_def Let_def nullish_def)

lemma fetch_malformed:
  "fst (fetchFromAPI malformed_env w) = Inl (Error ''All Overpass API endpoints failed'')"
  by (simp add: fetchFromAPI_def OVERPASS_ENDPOINTS_def fetch_try_def malformed_env_def
        offline_env_def Let_def nullish_def)

lemma fetch_null_body:
  "fst (fetchFromAPI null_body_env w) = Inl (Error ''Cannot read property elements of null'')"
  by (simp add: fetchFromAPI_def OVERPASS_ENDPOINTS_def fetch_try_def null_body_env_def
        offline_env_def Let_def nullish_def TypeError_def)

lemma fetch_null_entry:
  "fst (fetchFromAPI null_entry_env w) = Inr [city_hospital]"
  "requests (snd (fetchFromAPI null_entry_env w)) =
     requests w @ [''https://overpass-api.de/api/interpreter'',
                   ''https://lz4.overpass-api.de/api/interpreter'']"
  by (simp_all add: fetchFromAPI_def OVERPASS_ENDPOINTS_def fetch_try_def null_entry_env_def
        offline_env_def Let_def body_not_nullish body_elements transform_null
        transform_city_hospital_way TypeError_def console_log_def)

lemma load_fresh: "loadFromCache offline_env fresh_world = (Inr None, console_log Log_NoCacheFound fresh_world)"
  by (simp add: loadFromCache_def loadFromCache_try_def AsyncStorage_getItem_def Promise_all_def
        offline_env_def fresh_world_def)

lemma load_cached:
  "fst (loadFromCache offline_env w) = Inr (Some FALLBACK_SHELTERS)" if "storage w = storage cached_world"
proof -
  have k: "storage w STORAGE_KEY = Some (test_stringify FALLBACK_SHELTERS)"
    using that keys_differ by (simp add: cached_world_def)
  have n: "test_stringify FALLBACK_SHELTERS \<noteq> []" by (simp add: test_stringify_fallback)
  have p: "test_parse (test_stringify FALLBACK_SHELTERS) = Inr FALLBACK_SHELTERS"
    by (simp add: test_parse_def test_stringify_fallback test_stringify_city_hospital)
  have "fst (loadFromCache offline_env w) =
          Inr (case JSON_parse offline_env (test_stringify FALLBACK_SHELTERS) of
                 Inl e \<Rightarrow> None | Inr shelters \<Rightarrow> Some shelters)"
    using k n by (intro loadFromCache_stored) (simp_all add: offline_env_def)
  then show ?thesis using p by (simp add: offline_env_def)
qed

lemma getShelters_offline_fresh:
  "fst (getShelters offline_env fresh_world) =
     Inr \<lparr>r_shelters = FALLBACK_SHELTERS, r_source = Fallback,
          r_error = Some ''No network connection and no cached data available''\<rparr>"
proof -
  obtain w2 where "fetchFromAPI offline_env (console_log Log_NoCacheFound fresh_world)
                     = (Inl (Error ''timeout of 30000ms exceeded''), w2)"
    using fetch_offline [of "console_log Log_NoCacheFound fresh_world"]
    by (cases "fetchFromAPI offline_env (console_log Log_NoCacheFound fresh_world)") simp
  then show ?thesis
    by (simp add: getShelters_def load_fresh getShelters_catch_def getShelters_fallback_def Let_def)
qed

lemma refreshShelters_offline_cached:
  "fst (refreshShelters offline_env cached_world) =
     Inr \<lparr>r_shelters = FALLBACK_SHELTERS, r_source = Cache,
          r_error = Some ''Refresh failed: timeout of 30000ms exceeded''\<rparr>"
proof -
  obtain w1 where f: "fetchFromAPI offline_env cached_world = (Inl (Error ''timeout of 30000ms exceeded''), w1)"
    using fetch_offline [of cached_world] by (cases "fetchFromAPI offline_env cached_world") simp
  have "storage w1 = storage cached_world"
    using fetchFromAPI_storage [of offline_env cached_world] f by simp
  then have "fst (loadFromCache offline_env w1) = Inr (Some FALLBACK_SHELTERS)" by (rule load_cached)
  then obtain w2 where l: "loadFromCache offline_env w1 = (Inr (Some FALLBACK_SHELTERS), w2)"
    by (cases "loadFromCache offline_env w1") simp
  show ?thesis
    by (simp add: refreshShelters_def f refreshShelters_catch_def l Let_def FALLBACK_SHELTERS_nonempty)
qed

lemma load_broken: "fst (loadFromCache broken_env w) = Inr None"
  by (rule loadFromCache_rejected [where e = "Error ''storage unavailable''"])
     (simp add: broken_env_def)

lemma getShelters_broken:
  "fst (getShelters broken_env w) =
     Inr \<lparr>r_shelters = FALLBACK_SHELTERS, r_source = Fallback,
          r_error = Some ''No network connection and no cached data available''\<rparr>"
proof -
  obtain w1 where l: "loadFromCache broken_env w = (Inr None, w1)"
    using load_broken [of w] by (cases "loadFromCache broken_env w") simp
  obtain w2 where f: "fetchFromAPI broken_env w1 = (Inl (Error ''timeout of 30000ms exceeded''), w2)"
    using fetch_broken [of w1] by (cases "fetchFromAPI broken_env w1") simp
  show ?thesis
    by (simp add: getShelters_def l f getShelters_catch_def getShelters_fallback_def Let_def)
qed

lemma refreshShelters_broken:
  "fst (refreshShelters broken_env w) =
     Inr \<lparr>r_shelters = FALLBACK_SHELTERS, r_source = Fallback,
          r_error = Some ''Refresh failed: timeout of 30000ms exceeded''\<rparr>"
proof -
  obtain w1 where f: "fetchFromAPI broken_env w = (Inl (Error ''timeout of 30000ms exceeded''), w1)"
    using fetch_broken [of w] by (cases "fetchFromAPI broken_env w") simp
  obtain w2 where l: "loadFromCache broken_env w1 = (Inr None, w2)"
    using load_broken [of w1] by (cases "loadFromCache broken_env w1") simp
  show ?thesis
    by (simp add: refreshShelters_def f refreshShelters_catch_def l Let_def)
qed

section \<open>The claims\<close>

text \<open>
  C1. Whatever the store holds and whatever the endpoints answer, \<^verbatim>\<open>getShelters\<close>
  returns a result whose list is not empty; a result tagged fallback carries the bundled
  list, which has five entries.
\<close>

theorem getShelters_never_empty:
  "\<exists>r w'. getShelters ev w = (Inr r, w') \<and> r_shelters r \<noteq> []
          \<and> (r_source r = Fallback \<longrightarrow> r_shelters r = FALLBACK_SHELTERS)"
proof -
  obtain r where "fst (getShelters ev w) = Inr r" and "well_tagged r"
    using getShelters_tagged by blast
  then show ?thesis by (cases "getShelters ev w") (simp add: well_tagged_def)
qed

text \<open>
  Offline and with an empty store, the result is the bundled list.
\<close>

theorem getShelters_never_empty_witness:
  "fst (getShelters offline_env fresh_world) =
     Inr \<lparr>r_shelters = FALLBACK_SHELTERS, r_source = Fallback,
          r_error = Some ''No network connection and no cached data available''\<rparr>
   \<and> length FALLBACK_SHELTERS = 5"
proof -
  obtain r w' where g: "getShelters offline_env fresh_world = (Inr r, w')"
      and f: "r_source r = Fallback \<longrightarrow> r_shelters r = FALLBACK_SHELTERS"
    using getShelters_never_empty [of offline_env fresh_world] by blast
  have "r = \<lparr>r_shelters = FALLBACK_SHELTERS, r_source = Fallback,
          r_error = Some ''No network connection and no cached data available''\<rparr>"
    using g getShelters_offline_fresh by simp
  then show ?thesis using g by (simp add: FALLBACK_SHELTERS_def)
qed

text \<open>
  C2. \<^verbatim>\<open>getShelters\<close> and \<^verbatim>\<open>refreshShelters\<close> never throw: whatever the store does on
  reading and on writing and whatever the endpoints do (raising included), each of them
  returns a result tagged api, cache or fallback.
\<close>

theorem service_never_throws:
  "(\<exists>r w'. getShelters ev w = (Inr r, w') \<and> r_source r \<in> {Api, Cache, Fallback})
   \<and> (\<exists>r w'. refreshShelters ev w = (Inr r, w') \<and> r_source r \<in> {Api, Cache, Fallback})"
proof
  obtain r w' where "getShelters ev w = (Inr r, w')" using getShelters_returns by blast
  then show "\<exists>r w'. getShelters ev w = (Inr r, w') \<and> r_source r \<in> {Api, Cache, Fallback}"
    by (cases "r_source r") simp_all
next
  obtain r w' where "refreshShelters ev w = (Inr r, w')" using refreshShelters_returns by blast
  then show "\<exists>r w'. refreshShelters ev w = (Inr r, w') \<and> r_source r \<in> {Api, Cache, Fallback}"
    by (cases "r_source r") simp_all
qed

text \<open>
  Offline and with a store that rejects every read and write, both functions return the
  bundled list.
\<close>

theorem service_never_throws_witness:
  "getItem_rejects broken_env STORAGE_KEY = Some (Error ''storage unavailable'')
   \<and> post broken_env (hd OVERPASS_ENDPOINTS) = Throws (Error ''timeout of 30000ms exceeded'')
   \<and> fst (getShelters broken_env cached_world) =
     Inr \<lparr>r_shelters = FALLBACK_SHELTERS, r_source = Fallback,
          r_error = Some ''No network connection and no cached data available''\<rparr>
   \<and> fst (refreshShelters broken_env cached_world) =
     Inr \<lparr>r_shelters = FALLBACK_SHELTERS, r_source = Fallback,
          r_error = Some ''Refresh failed: timeout of 30000ms exceeded''\<rparr>"
proof -
  obtain r w' where g: "getShelters broken_env cached_world = (Inr r, w')"
    using service_never_throws [of broken_env cached_world] by blast
  obtain r' w'' where h: "refreshShelters broken_env cached_world = (Inr r', w'')"
    using service_never_throws [of broken_env cached_world] by blast
  have e: "getItem_rejects broken_env STORAGE_KEY = Some (Error ''storage unavailable'')
           \<and> post broken_env (hd OVERPASS_ENDPOINTS) = Throws (Error ''timeout of 30000ms exceeded'')"
    by (simp add: broken_env_def offline_env_def)
  show ?thesis
    using g h e getShelters_broken [of cached_world] refreshShelters_broken [of cached_world]
    by simp
qed

text \<open>
  C3, as the code has it. If the remote fetch succeeds with at least one record,
  \<^verbatim>\<open>getShelters\<close> returns exactly those records tagged api. If AsyncStorage accepts both
  writes, the store then holds exactly those records under the list key and the current
  time under the timestamp key, every other key unchanged. A write that AsyncStorage
  rejects is caught and logged by \<^verbatim>\<open>saveToCache\<close>: its key keeps the previous value, and
  the result is still tagged api.
\<close>

theorem api_result_and_cache_overwrite:
  assumes "fst (fetchFromAPI ev w) = Inr records" and "records \<noteq> []"
  shows "fst (getShelters ev w) = Inr \<lparr>r_shelters = records, r_source = Api, r_error = None\<rparr>
       \<and> (setItem_rejects ev STORAGE_KEY = None \<and> setItem_rejects ev STORAGE_TIMESTAMP_KEY = None \<longrightarrow>
            storage (snd (getShelters ev w)) =
              (storage w)(STORAGE_KEY \<mapsto> JSON_stringify ev records,
                          STORAGE_TIMESTAMP_KEY \<mapsto> show_int (now ev)))
       \<and> (setItem_rejects ev STORAGE_KEY \<noteq> None \<longrightarrow>
            storage (snd (getShelters ev w)) STORAGE_KEY = storage w STORAGE_KEY)
       \<and> (setItem_rejects ev STORAGE_TIMESTAMP_KEY \<noteq> None \<longrightarrow>
            storage (snd (getShelters ev w)) STORAGE_TIMESTAMP_KEY = storage w STORAGE_TIMESTAMP_KEY)"
proof -
  have r: "fst (getShelters ev w) = Inr \<lparr>r_shelters = records, r_source = Api, r_error = None\<rparr>"
    using assms by (rule getShelters_api(1))
  have s: "storage (snd (getShelters ev w)) = store_after_save ev records (storage w)"
    using assms by (rule getShelters_api(2))
  show ?thesis using r s keys_differ by (auto simp add: store_after_save_def Let_def)
qed

theorem api_result_and_cache_overwrite_witness:
  "fst (fetchFromAPI online_env cached_world) = Inr [city_hospital]
   \<and> fst (getShelters online_env cached_world) =
       Inr \<lparr>r_shelters = [city_hospital], r_source = Api, r_error = None\<rparr>
   \<and> storage (snd (getShelters online_env cached_world)) =
       [STORAGE_KEY \<mapsto> ''[osm_way_42;]'', STORAGE_TIMESTAMP_KEY \<mapsto> ''1700000000000'']
   \<and> fst (fetchFromAPI readonly_env cached_world) = Inr [city_hospital]
   \<and> setItem_rejects readonly_env STORAGE_KEY = Some (Error ''disk full'')
   \<and> storage (snd (getShelters readonly_env cached_world)) STORAGE_KEY =
       Some ''[fallback_1;fallback_2;fallback_3;fallback_4;fallback_5;]''"
proof -
  have f: "fst (fetchFromAPI online_env cached_world) = Inr [city_hospital]"
    by (rule fetch_online)
  have n: "show_int (now online_env) = ''1700000000000''"
    by (simp add: online_env_def offline_env_def show_int_timestamp)
  have a: "setItem_rejects online_env STORAGE_KEY = None \<and>
           setItem_rejects online_env STORAGE_TIMESTAMP_KEY = None"
    by (simp add: online_env_def offline_env_def)
  have j: "JSON_stringify online_env [city_hospital] = ''[osm_way_42;]''"
    by (simp add: online_env_def offline_env_def test_stringify_city_hospital)
  have "storage (snd (getShelters online_env cached_world)) =
          (storage cached_world)(STORAGE_KEY \<mapsto> JSON_stringify online_env [city_hospital],
                          STORAGE_TIMESTAMP_KEY \<mapsto> show_int (now online_env))"
    using api_result_and_cache_overwrite [OF f] a by simp
  then have s: "storage (snd (getShelters online_env cached_world)) =
       [STORAGE_KEY \<mapsto> ''[osm_way_42;]'', STORAGE_TIMESTAMP_KEY \<mapsto> ''1700000000000'']"
    using keys_differ by (simp add: n j cached_world_def)
  have g: "fst (fetchFromAPI readonly_env cached_world) = Inr [city_hospital]"
    by (rule fetch_readonly)
  have b: "setItem_rejects readonly_env STORAGE_KEY = Some (Error ''disk full'')"
    by (simp add: readonly_env_def)
  have k: "storage cached_world STORAGE_KEY =
             Some ''[fallback_1;fallback_2;fallback_3;fallback_4;fallback_5;]''"
    using keys_differ by (simp add: cached_world_def test_stringify_fallback)
  have "storage (snd (getShelters readonly_env cached_world)) STORAGE_KEY
          = storage cached_world STORAGE_KEY"
    using api_result_and_cache_overwrite [OF g] b by simp
  then show ?thesis using f s g b k api_result_and_cache_overwrite [OF f] by simp
qed

text \<open>
  C3 as stated fails when the store rejects the writes: the fetch yields one record, the
  result is tagged api, and the store still holds the previous list.
\<close>

theorem cache_overwrite_counterexample:
  "fst (fetchFromAPI readonly_env cached_world) = Inr [city_hospital]
   \<and> fst (getShelters readonly_env cached_world) =
       Inr \<lparr>r_shelters = [city_hospital], r_source = Api, r_error = None\<rparr>
   \<and> storage (snd (getShelters readonly_env cached_world)) = storage cached_world
   \<and> storage cached_world STORAGE_KEY \<noteq> Some (JSON_stringify readonly_env [city_hospital])"
proof -
  have f: "fst (fetchFromAPI readonly_env cached_world) = Inr [city_hospital]"
    by (rule fetch_readonly)
  have r: "fst (getShelters readonly_env cached_world) =
       Inr \<lparr>r_shelters = [city_hospital], r_source = Api, r_error = None\<rparr>"
    using f by (simp add: getShelters_api(1))
  have "storage (snd (getShelters readonly_env cached_world)) =
          store_after_save readonly_env [city_hospital] (storage cached_world)"
    using f by (simp add: getShelters_api(2))
  then have s: "storage (snd (getShelters readonly_env cached_world)) = storage cached_world"
    by (simp add: store_after_save_def readonly_env_def)
  have d: "storage cached_world STORAGE_KEY \<noteq> Some (JSON_stringify readonly_env [city_hospital])"
    by (simp add: cached_world_def keys_differ readonly_env_def online_env_def offline_env_def
          test_stringify_city_hospital test_stringify_fallback)
  show ?thesis using f r s d by simp
qed

text \<open>
  C4. An empty result is never persisted. \<^verbatim>\<open>saveToCache\<close> is not exported, and its only
  callers, \<^verbatim>\<open>getShelters\<close> and \<^verbatim>\<open>refreshShelters\<close>, reach it only with a fetched list
  that is not empty: when the remote fetch yields no record or fails, both leave the whole
  store (the list key and the timestamp key among it) unchanged, and the store changes
  only when the fetch yields at least one record, by the save of those records.
\<close>

theorem empty_fetch_leaves_cache:
  "(fst (fetchFromAPI ev w) = Inr [] \<or> (\<exists>e. fst (fetchFromAPI ev w) = Inl e) \<longrightarrow>
      storage (snd (getShelters ev w)) = storage w
      \<and> storage (snd (refreshShelters ev w)) = storage w)
   \<and> (fst (fetchFromAPI ev w) = Inr records \<and> records \<noteq> [] \<longrightarrow>
      storage (snd (getShelters ev w)) = store_after_save ev records (storage w)
      \<and> storage (snd (refreshShelters ev w)) = store_after_save ev records (storage w))"
proof (intro conjI impI)
  assume "fst (fetchFromAPI ev w) = Inr [] \<or> (\<exists>e. fst (fetchFromAPI ev w) = Inl e)"
  then have n: "\<forall>records. fst (fetchFromAPI ev w) = Inr records \<longrightarrow> records = []"
    by auto
  show "storage (snd (getShelters ev w)) = storage w"
    using n by (rule getShelters_no_records)
  show "storage (snd (refreshShelters ev w)) = storage w"
    using n by (rule refreshShelters_no_records)
next
  assume a: "fst (fetchFromAPI ev w) = Inr records \<and> records \<noteq> []"
  show "storage (snd (getShelters ev w)) = store_after_save ev records (storage w)"
    using a by (simp add: getShelters_api(2))
  show "storage (snd (refreshShelters ev w)) = store_after_save ev records (storage w)"
    using a by (simp add: refreshShelters_api(2))
qed

theorem empty_fetch_leaves_cache_witness:
  "fst (fetchFromAPI empty_env cached_world) = Inr []
   \<and> storage (snd (getShelters empty_env cached_world)) STORAGE_KEY
       = Some ''[fallback_1;fallback_2;fallback_3;fallback_4;fallback_5;]''
   \<and> storage (snd (getShelters empty_env cached_world)) STORAGE_TIMESTAMP_KEY = Some ''1600000000000''
   \<and> storage (snd (refreshShelters empty_env cached_world)) STORAGE_KEY
       = Some ''[fallback_1;fallback_2;fallback_3;fallback_4;fallback_5;]''
   \<and> storage (snd (refreshShelters empty_env cached_world)) STORAGE_TIMESTAMP_KEY = Some ''1600000000000''
   \<and> fst (fetchFromAPI online_env cached_world) = Inr [city_hospital]
   \<and> storage (snd (refreshShelters online_env cached_world)) STORAGE_KEY = Some ''[osm_way_42;]''"
proof -
  have f: "fst (fetchFromAPI empty_env cached_world) = Inr []" by (rule fetch_empty)
  have k: "storage cached_world STORAGE_KEY = Some ''[fallback_1;fallback_2;fallback_3;fallback_4;fallback_5;]''"
    using keys_differ by (simp add: cached_world_def test_stringify_fallback)
  have t: "storage cached_world STORAGE_TIMESTAMP_KEY = Some ''1600000000000''"
    by (simp add: cached_world_def)
  have u: "storage (snd (getShelters empty_env cached_world)) = storage cached_world
        \<and> storage (snd (refreshShelters empty_env cached_world)) = storage cached_world"
    using f empty_fetch_leaves_cache [of empty_env cached_world] by blast
  have g: "fst (fetchFromAPI online_env cached_world) = Inr [city_hospital]" by (rule fetch_online)
  have "storage (snd (refreshShelters online_env cached_world)) =
          store_after_save online_env [city_hospital] (storage cached_world)"
    using g empty_fetch_leaves_cache [of online_env cached_world "[city_hospital]"] by simp
  then have v: "storage (snd (refreshShelters online_env cached_world)) STORAGE_KEY = Some ''[osm_way_42;]''"
    using keys_differ
    by (simp add: store_after_save_def online_env_def offline_env_def test_stringify_city_hospital)
  show ?thesis using f k t u g v by simp
qed

text \<open>
  C5, as the code has it. An entry that is not \<^verbatim>\<open>null\<close> and has neither direct
  coordinates nor a centroid yields no record and is left out of the normalised list,
  with no error. Every record the remote client returns was made from an entry of an
  endpoint's answer and carries that entry's values unchanged: for a node its \<^verbatim>\<open>lat\<close> and
  \<^verbatim>\<open>lon\<close>, which are anything but \<^verbatim>\<open>undefined\<close>; for a way or a relation the \<^verbatim>\<open>lat\<close> and
  \<^verbatim>\<open>lon\<close> of its truthy \<^verbatim>\<open>center\<close>, whatever they are. Nothing checks that they are
  numbers, finite or in range. A result of \<^verbatim>\<open>getShelters\<close> or \<^verbatim>\<open>refreshShelters\<close> tagged api
  is the fetched list, and that list is what is persisted; one tagged cache is the list
  read from the store as it is; one tagged fallback is the bundled list, whose
  coordinates are valid.
\<close>

theorem coordinates_are_the_elements:
  "(\<not> nullish element \<and> js_get element ''lat'' = JUndefined \<and> js_get element ''lon'' = JUndefined
      \<and> js_get element ''center'' = JUndefined \<longrightarrow>
      transformToShelter ev element = Inr None
      \<and> normalized ev (xs @ element # ys) = normalized ev (xs @ ys))
   \<and> (fst (fetchFromAPI ev w) = Inr records \<and> s \<in> set records \<longrightarrow>
        (\<exists>endpoint \<in> set OVERPASS_ENDPOINTS. \<exists>el \<in> set (elements_of (post ev endpoint)).
           transformToShelter ev el = Inr (Some s)
           \<and> ((js_get el ''type'' = JStr ''node''
                 \<and> js_get el ''lat'' \<noteq> JUndefined \<and> js_get el ''lon'' \<noteq> JUndefined
                 \<and> s_lat s = js_get el ''lat'' \<and> s_lng s = js_get el ''lon'')
              \<or> ((js_get el ''type'' = JStr ''way'' \<or> js_get el ''type'' = JStr ''relation'')
                 \<and> js_truthy (js_get el ''center'')
                 \<and> s_lat s = js_get (js_get el ''center'') ''lat''
                 \<and> s_lng s = js_get (js_get el ''center'') ''lon''))))
   \<and> (fst (getShelters ev w) = Inr r \<or> fst (refreshShelters ev w) = Inr r \<longrightarrow>
        (r_source r = Api \<and> fst (fetchFromAPI ev w) = Inr (r_shelters r))
        \<or> (r_source r = Cache \<and> fst (loadFromCache ev w) = Inr (Some (r_shelters r)))
        \<or> (r_source r = Fallback \<and> r_shelters r = FALLBACK_SHELTERS))
   \<and> (fst (fetchFromAPI ev w) = Inr records \<and> records \<noteq> [] \<longrightarrow>
        storage (snd (getShelters ev w)) = store_after_save ev records (storage w)
        \<and> storage (snd (refreshShelters ev w)) = store_after_save ev records (storage w))
   \<and> list_all valid_coordinates FALLBACK_SHELTERS"
proof (intro conjI impI)
  assume a: "\<not> nullish element \<and> js_get element ''lat'' = JUndefined
      \<and> js_get element ''lon'' = JUndefined \<and> js_get element ''center'' = JUndefined"
  then show n: "transformToShelter ev element = Inr None"
    by (simp add: transform_without_coordinates)
  show "normalized ev (xs @ element # ys) = normalized ev (xs @ ys)"
    using n by (simp add: normalized_append normalized_Cons_None)
next
  assume a: "fst (fetchFromAPI ev w) = Inr records \<and> s \<in> set records"
  then obtain endpoint where e: "endpoint \<in> set OVERPASS_ENDPOINTS"
      and r: "records = normalized ev (elements_of (post ev endpoint))"
    using fetch_loop_Inr [of ev OVERPASS_ENDPOINTS None w records]
    by (auto simp add: fetchFromAPI_def)
  obtain el where m: "el \<in> set (elements_of (post ev endpoint))"
      and t: "transformToShelter ev el = Inr (Some s)"
    using a r normalized_member by blast
  show "\<exists>endpoint \<in> set OVERPASS_ENDPOINTS. \<exists>el \<in> set (elements_of (post ev endpoint)).
           transformToShelter ev el = Inr (Some s)
           \<and> ((js_get el ''type'' = JStr ''node''
                 \<and> js_get el ''lat'' \<noteq> JUndefined \<and> js_get el ''lon'' \<noteq> JUndefined
                 \<and> s_lat s = js_get el ''lat'' \<and> s_lng s = js_get el ''lon'')
              \<or> ((js_get el ''type'' = JStr ''way'' \<or> js_get el ''type'' = JStr ''relation'')
                 \<and> js_truthy (js_get el ''center'')
                 \<and> s_lat s = js_get (js_get el ''center'') ''lat''
                 \<and> s_lng s = js_get (js_get el ''center'') ''lon''))"
    using e m t transform_coordinates [OF t] by blast
next
  assume "fst (getShelters ev w) = Inr r \<or> fst (refreshShelters ev w) = Inr r"
  then show "(r_source r = Api \<and> fst (fetchFromAPI ev w) = Inr (r_shelters r))
        \<or> (r_source r = Cache \<and> fst (loadFromCache ev w) = Inr (Some (r_shelters r)))
        \<or> (r_source r = Fallback \<and> r_shelters r = FALLBACK_SHELTERS)"
    using getShelters_source [of ev w r] refreshShelters_source [of ev w r] by blast
next
  assume a: "fst (fetchFromAPI ev w) = Inr records \<and> records \<noteq> []"
  show "storage (snd (getShelters ev w)) = store_after_save ev records (storage w)"
    using a by (simp add: getShelters_api(2))
  show "storage (snd (refreshShelters ev w)) = store_after_save ev records (storage w)"
    using a by (simp add: refreshShelters_api(2))
next
  show "list_all valid_coordinates FALLBACK_SHELTERS" by (rule FALLBACK_SHELTERS_valid)
qed

text \<open>
  The node without coordinates is left out; the record of the way of scenario D carries
  the coordinates of the way's centre; the result tagged api is the fetched list.
\<close>

theorem coordinates_are_the_elements_witness:
  "\<not> nullish bare_node \<and> js_get bare_node ''lat'' = JUndefined
   \<and> js_get bare_node ''lon'' = JUndefined \<and> js_get bare_node ''center'' = JUndefined
   \<and> transformToShelter online_env bare_node = Inr None
   \<and> normalized online_env [city_hospital_way, bare_node] = [city_hospital]
   \<and> fst (fetchFromAPI online_env fresh_world) = Inr [city_hospital]
   \<and> js_get city_hospital_way ''center'' = JObj [(''lat'', JNum 45.1), (''lon'', JNum 21.2)]
   \<and> s_lat city_hospital = JNum 45.1 \<and> s_lng city_hospital = JNum 21.2
   \<and> fst (getShelters online_env fresh_world) =
       Inr \<lparr>r_shelters = [city_hospital], r_source = Api, r_error = None\<rparr>"
proof -
  have h: "\<not> nullish bare_node \<and> js_get bare_node ''lat'' = JUndefined
           \<and> js_get bare_node ''lon'' = JUndefined \<and> js_get bare_node ''center'' = JUndefined"
    by (simp add: bare_node_def nullish_def)
  have f: "fst (fetchFromAPI online_env fresh_world) = Inr [city_hospital]" by (rule fetch_online)
  have g: "fst (getShelters online_env fresh_world) =
             Inr \<lparr>r_shelters = [city_hospital], r_source = Api, r_error = None\<rparr>"
    using f by (simp add: getShelters_api(1))
  note T = coordinates_are_the_elements
             [where element = bare_node and ev = online_env and xs = "[city_hospital_way]"
                and ys = "[]" and w = fresh_world and records = "[city_hospital]"
                and s = city_hospital
                and r = "\<lparr>r_shelters = [city_hospital], r_source = Api, r_error = None\<rparr>"]
  have 1: "transformToShelter online_env bare_node = Inr None
           \<and> normalized online_env ([city_hospital_way] @ bare_node # [])
               = normalized online_env ([city_hospital_way] @ [])"
    using T h by blast
  have m: "city_hospital \<in> set [city_hospital]" by simp
  have 2: "\<exists>endpoint \<in> set OVERPASS_ENDPOINTS.
             \<exists>el \<in> set (elements_of (post online_env endpoint)).
               transformToShelter online_env el = Inr (Some city_hospital)
               \<and> ((js_get el ''type'' = JStr ''node''
                     \<and> js_get el ''lat'' \<noteq> JUndefined \<and> js_get el ''lon'' \<noteq> JUndefined
                     \<and> s_lat city_hospital = js_get el ''lat''
                     \<and> s_lng city_hospital = js_get el ''lon'')
                  \<or> ((js_get el ''type'' = JStr ''way'' \<or> js_get el ''type'' = JStr ''relation'')
                     \<and> js_truthy (js_get el ''center'')
                     \<and> s_lat city_hospital = js_get (js_get el ''center'') ''lat''
                     \<and> s_lng city_hospital = js_get (js_get el ''center'') ''lon''))"
    using T f m by blast
  have 3: "(r_source \<lparr>r_shelters = [city_hospital], r_source = Api, r_error = None\<rparr> = Api
             \<and> fst (fetchFromAPI online_env fresh_world)
                 = Inr (r_shelters \<lparr>r_shelters = [city_hospital], r_source = Api, r_error = None\<rparr>))
           \<or> (r_source \<lparr>r_shelters = [city_hospital], r_source = Api, r_error = None\<rparr> = Cache
             \<and> fst (loadFromCache online_env fresh_world)
                 = Inr (Some (r_shelters \<lparr>r_shelters = [city_hospital], r_source = Api, r_error = None\<rparr>)))
           \<or> (r_source \<lparr>r_shelters = [city_hospital], r_source = Api, r_error = None\<rparr> = Fallback
             \<and> r_shelters \<lparr>r_shelters = [city_hospital], r_source = Api, r_error = None\<rparr>
                 = FALLBACK_SHELTERS)"
    using T g by blast
  have n: "normalized online_env [city_hospital_way, bare_node] = [city_hospital]"
    using 1 by (simp add: normalized_city_hospital_way)
  have c: "js_get city_hospital_way ''center'' = JObj [(''lat'', JNum 45.1), (''lon'', JNum 21.2)]"
    by (simp add: city_hospital_way_def)
  have l: "s_lat city_hospital = JNum 45.1 \<and> s_lng city_hospital = JNum 21.2"
    by (simp add: city_hospital_def)
  show ?thesis using h f g 1 2 3 n c l by blast
qed

text \<open>
  C5 as stated fails: a node at latitude 999 and a node whose coordinates are \<^verbatim>\<open>null\<close>
  are normalised, returned to the caller and persisted.
\<close>

theorem coordinates_counterexample:
  "fst (getShelters far_env fresh_world) =
     Inr \<lparr>r_shelters = [far_shelter, null_shelter], r_source = Api, r_error = None\<rparr>
   \<and> storage (snd (getShelters far_env fresh_world)) STORAGE_KEY
       = Some (JSON_stringify far_env [far_shelter, null_shelter])
   \<and> s_lat far_shelter = JNum 999
   \<and> \<not> valid_coordinates far_shelter
   \<and> s_lat null_shelter = JNull
   \<and> \<not> valid_coordinates null_shelter"
proof -
  have f: "fst (fetchFromAPI far_env fresh_world) = Inr [far_shelter, null_shelter]"
    by (rule fetch_far)
  have r: "fst (getShelters far_env fresh_world) =
     Inr \<lparr>r_shelters = [far_shelter, null_shelter], r_source = Api, r_error = None\<rparr>"
    using f by (simp add: getShelters_api(1))
  have "storage (snd (getShelters far_env fresh_world)) =
          store_after_save far_env [far_shelter, null_shelter] (storage fresh_world)"
    using f by (simp add: getShelters_api(2))
  then have s: "storage (snd (getShelters far_env fresh_world)) STORAGE_KEY
                  = Some (JSON_stringify far_env [far_shelter, null_shelter])"
    using keys_differ by (simp add: store_after_save_def far_env_def offline_env_def)
  show ?thesis using r s by (simp add: valid_coordinates_def far_shelter_def null_shelter_def)
qed

text \<open>
  C6. The way of scenario D normalises to the record with id \<open>osm_way_42\<close>, category
  hospital, coordinates (45.1, 21.2), name City Hospital and no capacity. Every id is
  \<open>osm_\<close>, the element type (node, way or relation), \<open>_\<close> and the id converted to a
  string, which for an integer is its decimal digits. Two records whose elements have
  integer ids have the same id exactly when the elements have the same type and the same
  numeric id; records of elements of different types never have the same id, whatever
  the ids. The normaliser is a function: the same element always gets the same id.
\<close>

theorem normalizer_scenario_and_ids:
  "transformToShelter ev
     (JObj [(''type'', JStr ''way''), (''id'', JNum 42),
            (''center'', JObj [(''lat'', JNum 45.1), (''lon'', JNum 21.2)]),
            (''tags'', JObj [(''amenity'', JStr ''hospital''), (''name'', JStr ''City Hospital'')])])
   = Inr (Some \<lparr>s_id = ''osm_way_42'', s_type = Hospital, s_lat = JNum 45.1, s_lng = JNum 21.2,
                s_name = JStr ''City Hospital'', s_capacity = JUndefined\<rparr>)
   \<and> (\<forall>e s. transformToShelter ev e = Inr (Some s) \<longrightarrow>
          (\<exists>t n. js_get e ''type'' = JStr t \<and> t \<in> {''node'', ''way'', ''relation''}
                 \<and> ToString ev (js_get e ''id'') = Inr n
                 \<and> s_id s = ''osm_'' @ t @ ''_'' @ n))
   \<and> (\<forall>e s i. transformToShelter ev e = Inr (Some s) \<and> js_get e ''id'' = JNum (of_int i) \<longrightarrow>
          (\<exists>t. js_get e ''type'' = JStr t \<and> s_id s = ''osm_'' @ t @ ''_'' @ show_int i))
   \<and> (\<forall>e1 e2 s1 s2 i1 i2.
          transformToShelter ev e1 = Inr (Some s1) \<and> transformToShelter ev e2 = Inr (Some s2)
          \<and> js_get e1 ''id'' = JNum (of_int i1) \<and> js_get e2 ''id'' = JNum (of_int i2) \<longrightarrow>
          (s_id s1 = s_id s2) = (js_get e1 ''type'' = js_get e2 ''type'' \<and> i1 = i2))
   \<and> (\<forall>e1 e2 s1 s2.
          transformToShelter ev e1 = Inr (Some s1) \<and> transformToShelter ev e2 = Inr (Some s2)
          \<and> js_get e1 ''type'' \<noteq> js_get e2 ''type'' \<longrightarrow>
          s_id s1 \<noteq> s_id s2)"
proof (intro conjI allI impI)
  show "transformToShelter ev
     (JObj [(''type'', JStr ''way''), (''id'', JNum 42),
            (''center'', JObj [(''lat'', JNum 45.1), (''lon'', JNum 21.2)]),
            (''tags'', JObj [(''amenity'', JStr ''hospital''), (''name'', JStr ''City Hospital'')])])
   = Inr (Some \<lparr>s_id = ''osm_way_42'', s_type = Hospital, s_lat = JNum 45.1, s_lng = JNum 21.2,
                s_name = JStr ''City Hospital'', s_capacity = JUndefined\<rparr>)"
    using transform_city_hospital_way [of ev] by (simp add: city_hospital_way_def city_hospital_def)
next
  fix e s assume "transformToShelter ev e = Inr (Some s)"
  then show "\<exists>t n. js_get e ''type'' = JStr t \<and> t \<in> {''node'', ''way'', ''relation''}
                 \<and> ToString ev (js_get e ''id'') = Inr n
                 \<and> s_id s = ''osm_'' @ t @ ''_'' @ n"
    using transform_Some [of ev e s] by blast
next
  fix e s i
  assume a: "transformToShelter ev e = Inr (Some s) \<and> js_get e ''id'' = JNum (of_int i)"
  then obtain t n where "js_get e ''type'' = JStr t" "ToString ev (js_get e ''id'') = Inr n"
      "s_id s = ''osm_'' @ t @ ''_'' @ n"
    using transform_Some [of ev e s] by blast
  then show "\<exists>t. js_get e ''type'' = JStr t \<and> s_id s = ''osm_'' @ t @ ''_'' @ show_int i"
    using a by (simp add: number_toString_of_int)
next
  fix e1 e2 s1 s2 i1 i2
  assume a: "transformToShelter ev e1 = Inr (Some s1) \<and> transformToShelter ev e2 = Inr (Some s2)
          \<and> js_get e1 ''id'' = JNum (of_int i1) \<and> js_get e2 ''id'' = JNum (of_int i2)"
  obtain t1 n1 where 1: "js_get e1 ''type'' = JStr t1" "t1 \<in> {''node'', ''way'', ''relation''}"
      "ToString ev (js_get e1 ''id'') = Inr n1" "s_id s1 = ''osm_'' @ t1 @ ''_'' @ n1"
    using a transform_Some [of ev e1 s1] by blast
  obtain t2 n2 where 2: "js_get e2 ''type'' = JStr t2" "t2 \<in> {''node'', ''way'', ''relation''}"
      "ToString ev (js_get e2 ''id'') = Inr n2" "s_id s2 = ''osm_'' @ t2 @ ''_'' @ n2"
    using a transform_Some [of ev e2 s2] by blast
  have n: "n1 = show_int i1" "n2 = show_int i2"
    using a 1(3) 2(3) by (simp_all add: number_toString_of_int)
  show "(s_id s1 = s_id s2) = (js_get e1 ''type'' = js_get e2 ''type'' \<and> i1 = i2)"
  proof
    assume "s_id s1 = s_id s2"
    then have "''osm_'' @ t1 @ ''_'' @ show_int i1 = ''osm_'' @ t2 @ ''_'' @ show_int i2"
      using 1(4) 2(4) n by simp
    then have "t1 = t2 \<and> i1 = i2" using 1(2) 2(2) by (rule osm_id_inj [rotated 2])
    then show "js_get e1 ''type'' = js_get e2 ''type'' \<and> i1 = i2" using 1(1) 2(1) by simp
  next
    assume "js_get e1 ''type'' = js_get e2 ''type'' \<and> i1 = i2"
    then show "s_id s1 = s_id s2" using 1 2 n by simp
  qed
next
  fix e1 e2 s1 s2
  assume a: "transformToShelter ev e1 = Inr (Some s1) \<and> transformToShelter ev e2 = Inr (Some s2)
          \<and> js_get e1 ''type'' \<noteq> js_get e2 ''type''"
  obtain t1 n1 where 1: "js_get e1 ''type'' = JStr t1" "t1 \<in> {''node'', ''way'', ''relation''}"
      "s_id s1 = ''osm_'' @ t1 @ ''_'' @ n1"
    using a transform_Some [of ev e1 s1] by blast
  obtain t2 n2 where 2: "js_get e2 ''type'' = JStr t2" "t2 \<in> {''node'', ''way'', ''relation''}"
      "s_id s2 = ''osm_'' @ t2 @ ''_'' @ n2"
    using a transform_Some [of ev e2 s2] by blast
  have "t1 \<noteq> t2" using a 1(1) 2(1) by auto
  then have "''osm_'' @ t1 @ ''_'' @ n1 \<noteq> ''osm_'' @ t2 @ ''_'' @ n2"
    using 1(2) 2(2) by (intro osm_id_types_differ)
  then show "s_id s1 \<noteq> s_id s2" using 1(3) 2(3) by simp
qed

text \<open>The way and the node numbered 42 get different ids.\<close>

theorem normalizer_scenario_and_ids_witness:
  "transformToShelter offline_env city_hospital_way = Inr (Some city_hospital)
   \<and> transformToShelter offline_env node_42 =
       Inr (Some \<lparr>s_id = ''osm_node_42'', s_type = Unknown, s_lat = JNum 45.7, s_lng = JNum 21.3,
                  s_name = JStr ''Unknown #42'', s_capacity = JUndefined\<rparr>)
   \<and> js_get city_hospital_way ''id'' = JNum 42 \<and> js_get node_42 ''id'' = JNum 42
   \<and> s_id city_hospital = ''osm_way_'' @ show_int 42
   \<and> s_id city_hospital \<noteq> ''osm_node_42''"
proof -
  let ?n = "\<lparr>s_id = ''osm_node_42'', s_type = Unknown, s_lat = JNum 45.7, s_lng = JNum 21.3,
             s_name = JStr ''Unknown #42'', s_capacity = JUndefined\<rparr>"
  have a: "transformToShelter offline_env city_hospital_way = Inr (Some city_hospital)"
    by (rule transform_city_hospital_way)
  have b: "transformToShelter offline_env node_42 = Inr (Some ?n)" by (rule transform_node_42)
  have i: "js_get city_hospital_way ''id'' = JNum (of_int 42)" "js_get node_42 ''id'' = JNum (of_int 42)"
    by (simp_all add: city_hospital_way_def node_42_def)
  have t: "js_get city_hospital_way ''type'' = JStr ''way''" "js_get node_42 ''type'' = JStr ''node''"
    by (simp_all add: city_hospital_way_def node_42_def)
  have "\<exists>t. js_get city_hospital_way ''type'' = JStr t
             \<and> s_id city_hospital = ''osm_'' @ t @ ''_'' @ show_int 42"
    using normalizer_scenario_and_ids [of offline_env] a i(1) by blast
  then have c: "s_id city_hospital = ''osm_way_'' @ show_int 42" using t(1) by simp
  have "(s_id city_hospital = s_id ?n) =
        (js_get city_hospital_way ''type'' = js_get node_42 ''type'' \<and> (42::int) = 42)"
    using normalizer_scenario_and_ids [of offline_env] a b i by blast
  then have d: "s_id city_hospital \<noteq> ''osm_node_42''" using t by simp
  show ?thesis using a b c d i by simp
qed

text \<open>
  C7, as the code has it. The remote client sends its requests to the endpoints in their
  configured order, up to and including the first whose attempt succeeds, and returns the
  normalised elements of that answer, also when there are none: if the first endpoint
  fails and the second answers with an empty \<^verbatim>\<open>elements\<close> array, the third is never
  contacted and the empty list is returned. An attempt succeeds when the answer carries
  an \<^verbatim>\<open>elements\<close> array and the normaliser, which runs inside the same \<^verbatim>\<open>try\<close>, raises
  on none of its entries; it raises on a \<^verbatim>\<open>null\<close> entry, and on an entry with
  coordinates whose id cannot be converted to a string.
\<close>

theorem endpoints_in_order_until_valid:
  "requests (snd (fetchFromAPI ev w)) =
     requests w @ takeWhile (\<lambda>e. \<not> succeeds ev (post ev e)) OVERPASS_ENDPOINTS
               @ take 1 (dropWhile (\<lambda>e. \<not> succeeds ev (post ev e)) OVERPASS_ENDPOINTS)
   \<and> (dropWhile (\<lambda>e. \<not> succeeds ev (post ev e)) OVERPASS_ENDPOINTS = e # rest \<longrightarrow>
        fst (fetchFromAPI ev w) = Inr (normalized ev (elements_of (post ev e))))
   \<and> (\<not> succeeds ev (post ev (OVERPASS_ENDPOINTS ! 0))
        \<and> post ev (OVERPASS_ENDPOINTS ! 1) = Response data
        \<and> js_get data ''elements'' = JArr [] \<longrightarrow>
        fst (fetchFromAPI ev w) = Inr []
        \<and> requests (snd (fetchFromAPI ev w)) =
            requests w @ [OVERPASS_ENDPOINTS ! 0, OVERPASS_ENDPOINTS ! 1])
   \<and> succeeds ev (Response answer) =
        (isArray (js_get answer ''elements'')
         \<and> (\<forall>element \<in> set (entries (js_get answer ''elements'')).
               \<forall>x. transformToShelter ev element \<noteq> Inl x))
   \<and> \<not> succeeds ev (Throws err)
   \<and> (\<exists>x. transformToShelter ev element = Inl x) =
        (nullish element
         \<or> (\<exists>c. extractCoordinates ev element = Inr (Some c))
           \<and> (\<exists>x. ToString ev (js_get element ''id'') = Inl x))"
proof (intro conjI impI)
  show q: "requests (snd (fetchFromAPI ev w)) =
     requests w @ takeWhile (\<lambda>e. \<not> succeeds ev (post ev e)) OVERPASS_ENDPOINTS
               @ take 1 (dropWhile (\<lambda>e. \<not> succeeds ev (post ev e)) OVERPASS_ENDPOINTS)"
    unfolding fetchFromAPI_def by (rule fetch_loop_requests)
  show "fst (fetchFromAPI ev w) = Inr (normalized ev (elements_of (post ev e)))"
    if "dropWhile (\<lambda>e. \<not> succeeds ev (post ev e)) OVERPASS_ENDPOINTS = e # rest"
    using that unfolding fetchFromAPI_def by (rule fetch_loop_success)
  show "succeeds ev (Response answer) =
        (isArray (js_get answer ''elements'')
         \<and> (\<forall>element \<in> set (entries (js_get answer ''elements'')).
               \<forall>x. transformToShelter ev element \<noteq> Inl x))"
    by (simp add: succeeds_def first_error_None_iff)
  show "\<not> succeeds ev (Throws err)" by (simp add: succeeds_def)
  show "(\<exists>x. transformToShelter ev element = Inl x) =
        (nullish element
         \<or> (\<exists>c. extractCoordinates ev element = Inr (Some c))
           \<and> (\<exists>x. ToString ev (js_get element ''id'') = Inl x))"
    by (rule transform_raises_iff)
  assume a: "\<not> succeeds ev (post ev (OVERPASS_ENDPOINTS ! 0))
        \<and> post ev (OVERPASS_ENDPOINTS ! 1) = Response data
        \<and> js_get data ''elements'' = JArr []"
  have s: "succeeds ev (post ev (OVERPASS_ENDPOINTS ! 1))" using a by (simp add: succeeds_def)
  have t: "takeWhile (\<lambda>e. \<not> succeeds ev (post ev e)) OVERPASS_ENDPOINTS = [OVERPASS_ENDPOINTS ! 0]"
    using a s by (subst endpoints_list) simp
  have d: "dropWhile (\<lambda>e. \<not> succeeds ev (post ev e)) OVERPASS_ENDPOINTS
             = [OVERPASS_ENDPOINTS ! 1, OVERPASS_ENDPOINTS ! 2]"
    using a s by (subst endpoints_list) simp
  have "fst (fetchFromAPI ev w) = Inr (normalized ev (elements_of (post ev (OVERPASS_ENDPOINTS ! 1))))"
    using d unfolding fetchFromAPI_def by (rule fetch_loop_success)
  then show "fst (fetchFromAPI ev w) = Inr []" using a by (simp add: normalized_Nil)
  show "requests (snd (fetchFromAPI ev w)) = requests w @ [OVERPASS_ENDPOINTS ! 0, OVERPASS_ENDPOINTS ! 1]"
    using q t d by simp
qed

text \<open>The third endpoint would have answered with the way of scenario D; it is not asked.\<close>

theorem endpoints_in_order_until_valid_witness:
  "\<not> succeeds second_env (post second_env (OVERPASS_ENDPOINTS ! 0))
   \<and> post second_env (OVERPASS_ENDPOINTS ! 1) = Response (body [])
   \<and> js_get (body []) ''elements'' = JArr []
   \<and> post second_env (OVERPASS_ENDPOINTS ! 2) = Response (body [city_hospital_way])
   \<and> dropWhile (\<lambda>e. \<not> succeeds second_env (post second_env e)) OVERPASS_ENDPOINTS
       = [OVERPASS_ENDPOINTS ! 1, OVERPASS_ENDPOINTS ! 2]
   \<and> fst (fetchFromAPI second_env fresh_world) = Inr []
   \<and> requests (snd (fetchFromAPI second_env fresh_world)) =
       [''https://overpass-api.de/api/interpreter'', ''https://lz4.overpass-api.de/api/interpreter'']"
proof -
  have h: "\<not> succeeds second_env (post second_env (OVERPASS_ENDPOINTS ! 0))
        \<and> post second_env (OVERPASS_ENDPOINTS ! 1) = Response (body [])
        \<and> js_get (body []) ''elements'' = JArr []"
    by (simp add: second_env_def offline_env_def OVERPASS_ENDPOINTS_def succeeds_def body_elements)
  have t: "post second_env (OVERPASS_ENDPOINTS ! 2) = Response (body [city_hospital_way])"
    by (simp add: second_env_def offline_env_def OVERPASS_ENDPOINTS_def)
  have s: "succeeds second_env (post second_env (OVERPASS_ENDPOINTS ! 1))"
    using h by (simp add: succeeds_def)
  have d: "dropWhile (\<lambda>e. \<not> succeeds second_env (post second_env e)) OVERPASS_ENDPOINTS
             = [OVERPASS_ENDPOINTS ! 1, OVERPASS_ENDPOINTS ! 2]"
    using h s by (subst endpoints_list) simp
  have 1: "fst (fetchFromAPI second_env fresh_world) =
             Inr (normalized second_env (elements_of (post second_env (OVERPASS_ENDPOINTS ! 1))))"
    using endpoints_in_order_until_valid
            [of second_env fresh_world "OVERPASS_ENDPOINTS ! 1" "[OVERPASS_ENDPOINTS ! 2]"] d
    by blast
  have 2: "fst (fetchFromAPI second_env fresh_world) = Inr []
        \<and> requests (snd (fetchFromAPI second_env fresh_world)) =
            requests fresh_world @ [OVERPASS_ENDPOINTS ! 0, OVERPASS_ENDPOINTS ! 1]"
    using endpoints_in_order_until_valid [of second_env fresh_world _ _ "body []"] h by blast
  show ?thesis using h t d 1 2 by (simp add: fresh_world_def endpoint_0 endpoint_1)
qed

text \<open>
  C7 as stated fails: the first endpoint's answer carries an \<^verbatim>\<open>elements\<close> array, whose
  only entry is \<^verbatim>\<open>null\<close>; the normaliser raises on it, and the client goes on to the
  second endpoint and returns its record.
\<close>

theorem stops_at_first_array_counterexample:
  "post null_entry_env (OVERPASS_ENDPOINTS ! 0) = Response (body [JNull])
   \<and> structurally_valid (post null_entry_env (OVERPASS_ENDPOINTS ! 0))
   \<and> requests (snd (fetchFromAPI null_entry_env fresh_world)) =
       [''https://overpass-api.de/api/interpreter'', ''https://lz4.overpass-api.de/api/interpreter'']
   \<and> fst (fetchFromAPI null_entry_env fresh_world) = Inr [city_hospital]"
proof -
  have p: "post null_entry_env (OVERPASS_ENDPOINTS ! 0) = Response (body [JNull])"
    by (simp add: null_entry_env_def offline_env_def OVERPASS_ENDPOINTS_def)
  have v: "structurally_valid (post null_entry_env (OVERPASS_ENDPOINTS ! 0))"
    by (simp add: p body_elements)
  show ?thesis using p v fetch_null_entry [of fresh_world] by (simp add: fresh_world_def)
qed

text \<open>
  C8, as the code has it. If no endpoint's attempt succeeds, the remote client has
  contacted all of them in order and fails. The reason is the error of the last attempt
  that raised: a request that raised, a \<^verbatim>\<open>null\<close> body (reading \<^verbatim>\<open>elements\<close> from it is a
  type error), or an \<^verbatim>\<open>elements\<close> array on which the normaliser raised. An answer that is
  not \<^verbatim>\<open>null\<close> and has no \<^verbatim>\<open>elements\<close> array is skipped like a failure but records no
  error, and when no attempt raised the reason is the generic error
  \<open>All Overpass API endpoints failed\<close>.
\<close>

theorem all_endpoints_fail:
  assumes "\<forall>e \<in> set OVERPASS_ENDPOINTS. \<not> succeeds ev (post ev e)"
  shows "fst (fetchFromAPI ev w) = Inl (failure_reason ev None (map (post ev) OVERPASS_ENDPOINTS))
       \<and> requests (snd (fetchFromAPI ev w)) = requests w @ OVERPASS_ENDPOINTS"
proof
  show "fst (fetchFromAPI ev w) = Inl (failure_reason ev None (map (post ev) OVERPASS_ENDPOINTS))"
    using assms unfolding fetchFromAPI_def by (rule fetch_loop_failure)
  have tw: "takeWhile (\<lambda>e. \<not> succeeds ev (post ev e)) OVERPASS_ENDPOINTS = OVERPASS_ENDPOINTS"
    using assms by (simp add: takeWhile_eq_all_conv)
  have dw: "dropWhile (\<lambda>e. \<not> succeeds ev (post ev e)) OVERPASS_ENDPOINTS = []"
    using assms by (simp add: dropWhile_eq_Nil_conv)
  have "requests (snd (fetchFromAPI ev w)) =
     requests w @ takeWhile (\<lambda>e. \<not> succeeds ev (post ev e)) OVERPASS_ENDPOINTS
               @ take 1 (dropWhile (\<lambda>e. \<not> succeeds ev (post ev e)) OVERPASS_ENDPOINTS)"
    unfolding fetchFromAPI_def by (rule fetch_loop_requests)
  then show "requests (snd (fetchFromAPI ev w)) = requests w @ OVERPASS_ENDPOINTS"
    by (simp only: tw dw) simp
qed

text \<open>
  A time-out followed by two answers without the array: the reason is the time-out. A
  time-out followed by two \<^verbatim>\<open>null\<close> bodies: the reason is the type error of the last.
\<close>

theorem all_endpoints_fail_witness:
  "map (post malformed_after_timeout_env) OVERPASS_ENDPOINTS =
     [Throws (Error ''timeout of 30000ms exceeded''),
      Response (JObj [(''remark'', JStr ''runtime error'')]),
      Response (JObj [(''remark'', JStr ''runtime error'')])]
   \<and> fst (fetchFromAPI malformed_after_timeout_env fresh_world) =
       Inl (Error ''timeout of 30000ms exceeded'')
   \<and> requests (snd (fetchFromAPI malformed_after_timeout_env fresh_world)) = OVERPASS_ENDPOINTS
   \<and> map (post null_body_env) OVERPASS_ENDPOINTS =
       [Throws (Error ''timeout of 30000ms exceeded''), Response JNull, Response JNull]
   \<and> fst (fetchFromAPI null_body_env fresh_world) =
       Inl (Error ''Cannot read property elements of null'')"
proof -
  have o: "map (post malformed_after_timeout_env) OVERPASS_ENDPOINTS =
     [Throws (Error ''timeout of 30000ms exceeded''),
      Response (JObj [(''remark'', JStr ''runtime error'')]),
      Response (JObj [(''remark'', JStr ''runtime error'')])]"
    by (simp add: malformed_after_timeout_env_def offline_env_def OVERPASS_ENDPOINTS_def)
  have h: "\<forall>e \<in> set OVERPASS_ENDPOINTS. \<not> succeeds malformed_after_timeout_env (post malformed_after_timeout_env e)"
    by (simp add: malformed_after_timeout_env_def offline_env_def OVERPASS_ENDPOINTS_def succeeds_def)
  have r: "failure_reason malformed_after_timeout_env None
             [Throws (Error ''timeout of 30000ms exceeded''),
              Response (JObj [(''remark'', JStr ''runtime error'')]),
              Response (JObj [(''remark'', JStr ''runtime error'')])]
             = Error ''timeout of 30000ms exceeded''"
    by (simp add: failure_reason_def List.map_filter_def nullish_def)
  have o': "map (post null_body_env) OVERPASS_ENDPOINTS =
       [Throws (Error ''timeout of 30000ms exceeded''), Response JNull, Response JNull]"
    by (simp add: null_body_env_def offline_env_def OVERPASS_ENDPOINTS_def)
  have h': "\<forall>e \<in> set OVERPASS_ENDPOINTS. \<not> succeeds null_body_env (post null_body_env e)"
    by (simp add: null_body_env_def offline_env_def OVERPASS_ENDPOINTS_def succeeds_def)
  have r': "failure_reason null_body_env None
             [Throws (Error ''timeout of 30000ms exceeded''), Response JNull, Response JNull]
             = Error ''Cannot read property elements of null''"
    by (simp add: failure_reason_def List.map_filter_def nullish_def TypeError_def
          null_body_env_def offline_env_def)
  show ?thesis
    using all_endpoints_fail [OF h, of fresh_world] all_endpoints_fail [OF h', of fresh_world]
      o r o' r'
    by (simp add: fresh_world_def)
qed

text \<open>
  C8 as stated fails: in both runs the last failure observed is the answer of the last
  endpoint without the array, yet the reasons differ; one is the time-out of the first
  endpoint, the other the generic error.
\<close>

theorem last_error_counterexample:
  "post malformed_after_timeout_env (last OVERPASS_ENDPOINTS)
     = Response (JObj [(''remark'', JStr ''runtime error'')])
   \<and> post malformed_env (last OVERPASS_ENDPOINTS)
     = Response (JObj [(''remark'', JStr ''runtime error'')])
   \<and> \<not> structurally_valid (Response (JObj [(''remark'', JStr ''runtime error'')]))
   \<and> post malformed_after_timeout_env (hd OVERPASS_ENDPOINTS) = Throws (Error ''timeout of 30000ms exceeded'')
   \<and> fst (fetchFromAPI malformed_after_timeout_env fresh_world) =
       Inl (Error ''timeout of 30000ms exceeded'')
   \<and> fst (fetchFromAPI malformed_env fresh_world) =
       Inl (Error ''All Overpass API endpoints failed'')"
  by (simp add: fetch_malformed_after_timeout fetch_malformed)
     (simp add: malformed_after_timeout_env_def malformed_env_def offline_env_def OVERPASS_ENDPOINTS_def)

text \<open>
  C9. Every result of \<^verbatim>\<open>getShelters\<close> and of \<^verbatim>\<open>refreshShelters\<close> carries an error text
  if and only if its source is not the API, and an error text is never empty.
\<close>

theorem error_iff_not_api:
  "(\<exists>r. fst (getShelters ev w) = Inr r
        \<and> (r_error r \<noteq> None) = (r_source r \<noteq> Api)
        \<and> (\<forall>m. r_error r = Some m \<longrightarrow> m \<noteq> []))
   \<and> (\<exists>r. fst (refreshShelters ev w) = Inr r
        \<and> (r_error r \<noteq> None) = (r_source r \<noteq> Api)
        \<and> (\<forall>m. r_error r = Some m \<longrightarrow> m \<noteq> []))"
proof
  obtain r where "fst (getShelters ev w) = Inr r" and "well_tagged r"
    using getShelters_tagged by blast
  then show "\<exists>r. fst (getShelters ev w) = Inr r
        \<and> (r_error r \<noteq> None) = (r_source r \<noteq> Api)
        \<and> (\<forall>m. r_error r = Some m \<longrightarrow> m \<noteq> [])"
    by (auto simp add: well_tagged_def split: if_splits)
next
  obtain r where "fst (refreshShelters ev w) = Inr r" and "well_tagged r"
    using refreshShelters_tagged by blast
  then show "\<exists>r. fst (refreshShelters ev w) = Inr r
        \<and> (r_error r \<noteq> None) = (r_source r \<noteq> Api)
        \<and> (\<forall>m. r_error r = Some m \<longrightarrow> m \<noteq> [])"
    by (auto simp add: well_tagged_def split: if_splits)
qed

text \<open>
  A result from the API without error text, a result from the cache with one.
\<close>

theorem error_iff_not_api_witness:
  "fst (getShelters online_env cached_world) =
     Inr \<lparr>r_shelters = [city_hospital], r_source = Api, r_error = None\<rparr>
   \<and> fst (refreshShelters offline_env cached_world) =
     Inr \<lparr>r_shelters = FALLBACK_SHELTERS, r_source = Cache,
          r_error = Some ''Refresh failed: timeout of 30000ms exceeded''\<rparr>"
proof -
  obtain r where g: "fst (getShelters online_env cached_world) = Inr r"
      and e: "(r_error r \<noteq> None) = (r_source r \<noteq> Api)"
    using error_iff_not_api [of online_env cached_world] by blast
  have "r = \<lparr>r_shelters = [city_hospital], r_source = Api, r_error = None\<rparr>"
    using g getShelters_api(1) [OF fetch_online, of cached_world] by simp
  then show ?thesis using g refreshShelters_offline_cached by simp
qed

text \<open>
  C10, as the code has it. After \<^verbatim>\<open>saveToCache\<close> of a list whose write under the list
  key AsyncStorage accepted, \<^verbatim>\<open>loadFromCache\<close> on the same store, at any time and with
  reads that AsyncStorage accepts, returns that list (JSON reading back what it wrote, a
  text that is not empty) and leaves the store as it is. When the timestamp was written
  too and more than 24 hours have passed, the load logs the expiry and still returns the
  list. A rejected write or read is caught and logged: \<^verbatim>\<open>saveToCache\<close> returns normally
  and the key whose write was rejected keeps its previous value; \<^verbatim>\<open>loadFromCache\<close>
  returns \<^verbatim>\<open>null\<close> and leaves the store as it is.
\<close>

theorem save_then_load:
  "(setItem_rejects ev STORAGE_KEY = None
      \<and> getItem_rejects ev' STORAGE_KEY = None
      \<and> getItem_rejects ev' STORAGE_TIMESTAMP_KEY = None
      \<and> JSON_stringify ev s \<noteq> []
      \<and> JSON_parse ev' (JSON_stringify ev s) = Inr s
      \<and> storage w' = storage (snd (saveToCache ev s w)) \<longrightarrow>
      fst (loadFromCache ev' w') = Inr (Some s)
      \<and> storage (snd (loadFromCache ev' w')) = storage w'
      \<and> (setItem_rejects ev STORAGE_TIMESTAMP_KEY = None \<and> now ev' - now ev > CACHE_MAX_AGE \<longrightarrow>
           console (snd (loadFromCache ev' w')) =
             console w' @ [Log_CacheExpired ((now ev' - now ev + 1800000) div 3600000),
                           Log_Loaded (length s)]))
   \<and> fst (saveToCache ev s w) = Inr ()
   \<and> (setItem_rejects ev STORAGE_KEY = Some x \<longrightarrow>
        storage (snd (saveToCache ev s w)) STORAGE_KEY = storage w STORAGE_KEY
        \<and> console (snd (saveToCache ev s w)) = console w @ [Error_SavingToCache x])
   \<and> (setItem_rejects ev STORAGE_TIMESTAMP_KEY = Some x \<longrightarrow>
        storage (snd (saveToCache ev s w)) STORAGE_TIMESTAMP_KEY = storage w STORAGE_TIMESTAMP_KEY
        \<and> (\<exists>y. console (snd (saveToCache ev s w)) = console w @ [Error_SavingToCache y]))
   \<and> (getItem_rejects ev' STORAGE_KEY \<noteq> None \<or> getItem_rejects ev' STORAGE_TIMESTAMP_KEY \<noteq> None \<longrightarrow>
        fst (loadFromCache ev' w') = Inr None
        \<and> storage (snd (loadFromCache ev' w')) = storage w'
        \<and> (\<exists>y. console (snd (loadFromCache ev' w')) = console w' @ [Error_LoadingCache y]))"
proof (intro conjI impI)
  assume a: "setItem_rejects ev STORAGE_KEY = None
      \<and> getItem_rejects ev' STORAGE_KEY = None
      \<and> getItem_rejects ev' STORAGE_TIMESTAMP_KEY = None
      \<and> JSON_stringify ev s \<noteq> []
      \<and> JSON_parse ev' (JSON_stringify ev s) = Inr s
      \<and> storage w' = storage (snd (saveToCache ev s w))"
  have a1: "setItem_rejects ev STORAGE_KEY = None"
    and a2: "getItem_rejects ev' STORAGE_KEY = None"
    and a3: "getItem_rejects ev' STORAGE_TIMESTAMP_KEY = None"
    and a4: "JSON_stringify ev s \<noteq> []"
    and a5: "JSON_parse ev' (JSON_stringify ev s) = Inr s"
    and a6: "storage w' = storage (snd (saveToCache ev s w))"
    using a by blast+
  have st: "storage w' = store_after_save ev s (storage w)"
    using a6 by (simp add: saveToCache_storage)
  have k: "storage w' STORAGE_KEY = Some (JSON_stringify ev s)"
    using st a1 keys_differ by (simp add: store_after_save_def Let_def)
  have "fst (loadFromCache ev' w') =
          Inr (case JSON_parse ev' (JSON_stringify ev s) of Inl e \<Rightarrow> None | Inr shelters \<Rightarrow> Some shelters)"
    using a2 a3 k a4 by (rule loadFromCache_stored)
  then show "fst (loadFromCache ev' w') = Inr (Some s)" using a5 by simp
  show "storage (snd (loadFromCache ev' w')) = storage w'" by (rule loadFromCache_storage)
  assume b: "setItem_rejects ev STORAGE_TIMESTAMP_KEY = None \<and> now ev' - now ev > CACHE_MAX_AGE"
  have t: "storage w' STORAGE_TIMESTAMP_KEY = Some (show_int (now ev))"
    using st b by (simp add: store_after_save_def Let_def)
  show "console (snd (loadFromCache ev' w')) =
              console w' @ [Log_CacheExpired ((now ev' - now ev + 1800000) div 3600000),
                            Log_Loaded (length s)]"
    using a2 a3 k a4 t b [THEN conjunct2] a5 by (rule loadFromCache_stale_console)
next
  show "fst (saveToCache ev s w) = Inr ()"
    using saveToCache_returns [of ev s w] by auto
next
  assume r: "setItem_rejects ev STORAGE_KEY = Some x"
  show "storage (snd (saveToCache ev s w)) STORAGE_KEY = storage w STORAGE_KEY"
    using r keys_differ by (simp add: saveToCache_storage store_after_save_def Let_def)
  show "console (snd (saveToCache ev s w)) = console w @ [Error_SavingToCache x]"
    using r by (rule saveToCache_rejected_console)
next
  assume r: "setItem_rejects ev STORAGE_TIMESTAMP_KEY = Some x"
  show "storage (snd (saveToCache ev s w)) STORAGE_TIMESTAMP_KEY = storage w STORAGE_TIMESTAMP_KEY"
    using r keys_differ by (simp add: saveToCache_storage store_after_save_def Let_def)
  show "\<exists>y. console (snd (saveToCache ev s w)) = console w @ [Error_SavingToCache y]"
    using r
    by (simp add: saveToCache_def AsyncStorage_setItem_def Promise_all_def console_log_def
          split: option.split)
next
  assume r: "getItem_rejects ev' STORAGE_KEY \<noteq> None \<or> getItem_rejects ev' STORAGE_TIMESTAMP_KEY \<noteq> None"
  show "fst (loadFromCache ev' w') = Inr None"
    using loadFromCache_rejected_console [OF r] by simp
  show "storage (snd (loadFromCache ev' w')) = storage w'" by (rule loadFromCache_storage)
  show "\<exists>y. console (snd (loadFromCache ev' w')) = console w' @ [Error_LoadingCache y]"
    using loadFromCache_rejected_console [OF r] by simp
qed

text \<open>
  A list saved and loaded twenty-five hours later; a save on a store that rejects writes;
  a load on a store that rejects reads.
\<close>

theorem save_then_load_witness:
  "fst (loadFromCache next_day_env (snd (saveToCache offline_env [city_hospital] fresh_world)))
     = Inr (Some [city_hospital])
   \<and> now next_day_env - now offline_env > CACHE_MAX_AGE
   \<and> console (snd (loadFromCache next_day_env (snd (saveToCache offline_env [city_hospital] fresh_world))))
     = [Log_Saved 1, Log_CacheExpired 25, Log_Loaded 1]
   \<and> setItem_rejects readonly_env STORAGE_KEY = Some (Error ''disk full'')
   \<and> storage (snd (saveToCache readonly_env [city_hospital] cached_world)) STORAGE_KEY
       = Some ''[fallback_1;fallback_2;fallback_3;fallback_4;fallback_5;]''
   \<and> console (snd (saveToCache readonly_env [city_hospital] cached_world))
       = [Error_SavingToCache (Error ''disk full'')]
   \<and> getItem_rejects broken_env STORAGE_KEY = Some (Error ''storage unavailable'')
   \<and> fst (loadFromCache broken_env cached_world) = Inr None"
proof -
  let ?w = "snd (saveToCache offline_env [city_hospital] fresh_world)"
  have 1: "setItem_rejects offline_env STORAGE_KEY = None
      \<and> getItem_rejects next_day_env STORAGE_KEY = None
      \<and> getItem_rejects next_day_env STORAGE_TIMESTAMP_KEY = None
      \<and> JSON_stringify offline_env [city_hospital] \<noteq> []
      \<and> JSON_parse next_day_env (JSON_stringify offline_env [city_hospital]) = Inr [city_hospital]
      \<and> storage ?w = storage (snd (saveToCache offline_env [city_hospital] fresh_world))"
    by (simp add: next_day_env_def offline_env_def test_stringify_city_hospital test_parse_def)
  have 7: "setItem_rejects offline_env STORAGE_TIMESTAMP_KEY = None
           \<and> now next_day_env - now offline_env > CACHE_MAX_AGE"
    by (simp add: next_day_env_def offline_env_def CACHE_MAX_AGE_def)
  have c: "console ?w = [Log_Saved 1]"
    by (simp add: saveToCache_def AsyncStorage_setItem_def Promise_all_def console_log_def
          offline_env_def fresh_world_def Let_def)
  have h: "(now next_day_env - now offline_env + 1800000) div 3600000 = 25"
    by (simp add: next_day_env_def offline_env_def)
  have A: "fst (loadFromCache next_day_env ?w) = Inr (Some [city_hospital])
           \<and> console (snd (loadFromCache next_day_env ?w)) =
               console ?w @ [Log_CacheExpired ((now next_day_env - now offline_env + 1800000) div 3600000),
                             Log_Loaded (length [city_hospital])]"
    using save_then_load [of offline_env next_day_env "[city_hospital]" ?w fresh_world] 1 7
    by blast
  have r: "setItem_rejects readonly_env STORAGE_KEY = Some (Error ''disk full'')"
    by (simp add: readonly_env_def)
  have k: "storage cached_world STORAGE_KEY =
             Some ''[fallback_1;fallback_2;fallback_3;fallback_4;fallback_5;]''"
    using keys_differ by (simp add: cached_world_def test_stringify_fallback)
  have B: "storage (snd (saveToCache readonly_env [city_hospital] cached_world)) STORAGE_KEY
             = storage cached_world STORAGE_KEY
           \<and> console (snd (saveToCache readonly_env [city_hospital] cached_world))
             = console cached_world @ [Error_SavingToCache (Error ''disk full'')]"
    using save_then_load [of readonly_env _ "[city_hospital]" _ cached_world "Error ''disk full''"] r
    by blast
  have g: "getItem_rejects broken_env STORAGE_KEY = Some (Error ''storage unavailable'')"
    by (simp add: broken_env_def)
  have C: "fst (loadFromCache broken_env cached_world) = Inr None"
    using save_then_load [of _ broken_env _ cached_world] g by blast
  have cw: "console cached_world = []" by (simp add: cached_world_def)
  show ?thesis using A 7 c h r k B g C cw by simp
qed

text \<open>
  C10 as stated fails when the store rejects the write: \<^verbatim>\<open>saveToCache\<close> catches the
  rejection, and the load that follows finds no cache.
\<close>

theorem save_then_load_counterexample:
  "JSON_parse readonly_env (JSON_stringify readonly_env [city_hospital]) = Inr [city_hospital]
   \<and> fst (loadFromCache readonly_env (snd (saveToCache readonly_env [city_hospital] fresh_world)))
       = Inr None"
proof -
  have p: "JSON_parse readonly_env (JSON_stringify readonly_env [city_hospital]) = Inr [city_hospital]"
    by (simp add: readonly_env_def online_env_def offline_env_def test_parse_def)
  have "storage (snd (saveToCache readonly_env [city_hospital] fresh_world)) =
          store_after_save readonly_env [city_hospital] (storage fresh_world)"
    by (rule saveToCache_storage)
  then have s: "storage (snd (saveToCache readonly_env [city_hospital] fresh_world)) = Map.empty"
    by (simp add: store_after_save_def readonly_env_def fresh_world_def)
  have "fst (loadFromCache readonly_env (snd (saveToCache readonly_env [city_hospital] fresh_world)))
       = Inr None"
  proof (rule loadFromCache_absent)
    show "getItem_rejects readonly_env STORAGE_KEY = None"
      by (simp add: readonly_env_def online_env_def offline_env_def)
    show "getItem_rejects readonly_env STORAGE_TIMESTAMP_KEY = None"
      by (simp add: readonly_env_def online_env_def offline_env_def)
    show "storage (snd (saveToCache readonly_env [city_hospital] fresh_world)) STORAGE_KEY = None"
      by (simp add: s)
  qed
  then show ?thesis using p by simp
qed

end
